theory Spec2Isabelle
  imports Complex_Main "HOL-Library.Char_ord" "HOL-Library.List_Lexorder" "HOL-Library.Sublist"
begin

section \<open>Values, slices and errors\<close>

text \<open>
  A cell of a result row is a Go \<open>interface{}\<close> value.  The constructors cover the
  dynamic types that occur in \<open>response.go\<close>: \<open>nil\<close>, \<open>int\<close>, \<open>float64\<close>, \<open>string\<close>
  and lists.  A \<open>float64\<close> is idealised as a real number: rounding and NaN are not modelled.
\<close>

datatype cell = CNil | CInt int | CFloat real | CString string | CList "cell list"

type_synonym row = "cell list"

text \<open>How a call can fail: \<open>Panic\<close> is a run-time panic of the Go program (slice bounds,
  index out of range, failed type assertion, explicit \<open>panic\<close>); \<open>Err\<close> is an ordinary
  \<open>error\<close> value that the function returns, with its message.\<close>

datatype error = Panic string | Err string

text \<open>
  A Go slice of rows: \<open>NilSlice\<close> is the \<open>nil\<close> slice; \<open>Slice xs sp\<close> has the visible
  elements \<open>xs\<close> (so \<open>len = length xs\<close>) and the cells \<open>sp\<close> of the backing array that
  lie between \<open>len\<close> and \<open>cap\<close>.
\<close>

datatype 'a slice = NilSlice | Slice "'a list" "'a list"

fun elems :: "'a slice \<Rightarrow> 'a list" where
  "elems NilSlice = []"
| "elems (Slice xs sp) = xs"

fun spare :: "'a slice \<Rightarrow> 'a list" where
  "spare NilSlice = []"
| "spare (Slice xs sp) = sp"

definition len :: "'a slice \<Rightarrow> int" where
  "len s = int (length (elems s))"

definition cap :: "'a slice \<Rightarrow> int" where
  "cap s = int (length (elems s) + length (spare s))"

text \<open>\<open>s[low:]\<close>: Go requires \<open>0 \<le> low \<le> len(s)\<close> and panics otherwise.\<close>

definition slice_from :: "'a slice \<Rightarrow> int \<Rightarrow> error + 'a slice" where
  "slice_from s low =
     (if low < 0 \<or> len s < low then Inl (Panic ''slice bounds out of range'')
      else case s of
             NilSlice \<Rightarrow> Inr NilSlice
           | Slice xs sp \<Rightarrow> Inr (Slice (drop (nat low) xs) sp))"

text \<open>\<open>s[0:high]\<close>: Go requires \<open>0 \<le> high \<le> cap(s)\<close> and panics otherwise; a \<open>high\<close>
  beyond \<open>len(s)\<close> makes cells of the backing array visible.\<close>

definition slice_to :: "'a slice \<Rightarrow> int \<Rightarrow> error + 'a slice" where
  "slice_to s high =
     (if high < 0 \<or> cap s < high then Inl (Panic ''slice bounds out of range'')
      else case s of
             NilSlice \<Rightarrow> Inr NilSlice
           | Slice xs sp \<Rightarrow> Inr (Slice (take (nat high) (xs @ sp)) (drop (nat high) (xs @ sp))))"

text \<open>\<open>xs[i]\<close> on a Go slice: \<open>None\<close> stands for the index-out-of-range panic.\<close>

definition go_index :: "'a list \<Rightarrow> int \<Rightarrow> 'a option" where
  "go_index xs i = (if 0 \<le> i \<and> i < int (length xs) then Some (xs ! nat i) else None)"

section \<open>Data model\<close>

text \<open>
  Modelled from the spec: the declarations of \<open>ColumnType\<close>, \<open>UpdateType\<close>, \<open>StatsType\<close>,
  \<open>Direction\<close>, \<open>Column\<close>, \<open>Table\<close>, \<open>Request\<close> and the sort and stats specs are not part
  of \<open>response.go\<close>.  The constructors are the values the source and the spec name; \<open>UnknownCol\<close>,
  \<open>OtherUpdate\<close> and \<open>NoStats\<close> stand for every other value of the underlying Go integer type
  (the ones the source sends to its \<open>default\<close> and panic branches).
\<close>

datatype ColumnType =
  UnknownCol | StringCol | StringListCol | IntCol | IntListCol | FloatCol | TimeCol | VirtCol

datatype UpdateType = StaticUpdate | DynamicUpdate | VirtUpdate | OtherUpdate

datatype StatsType = NoStats | Counter | Sum | Average | Min | Max

datatype Direction = Asc | Desc

typedecl FilterExpr

record Column =
  col_Name :: string
  col_Type :: ColumnType
  col_Index :: int
  col_RefIndex :: int
  col_Update :: UpdateType

record Table =
  tbl_Name :: string
  tbl_Columns :: "Column list"
  tbl_ColumnsIndex :: "string \<rightharpoonup> int"
  tbl_PassthroughOnly :: bool
  tbl_DynamicColCacheIndexes :: "int list"

record Stat =
  st_StatsType :: StatsType
  st_Stats :: real
  st_StatsCount :: int

record SortField =
  sf_Name :: string
  sf_Index :: int
  sf_Direction :: Direction

record Request =
  req_Table :: string
  req_Columns :: "string list"
  req_Filter :: "FilterExpr list"
  req_Stats :: "Stat list"
  req_Sort :: "SortField list"
  req_Limit :: int
  req_Offset :: int
  req_Backends :: "string list"
  req_OutputFormat :: string
  req_SendColumnsHeader :: bool
  req_ResponseFixed16 :: bool

text \<open>The \<open>Response\<close> struct of the source; \<open>res_Error\<close> is \<open>None\<close> for a \<open>nil\<close> error.\<close>

record Response =
  res_Code :: int
  res_Result :: "row slice"
  res_ResultTotal :: int
  res_Request :: Request
  res_Error :: "string option"
  res_Failed :: "string \<rightharpoonup> string"
  res_Columns :: "Column list"

section \<open>The sort comparator\<close>

text \<open>\<open>res.Result[i][k]\<close>: both index operations panic out of range.\<close>

definition cell_at :: "row list \<Rightarrow> int \<Rightarrow> int \<Rightarrow> error + cell" where
  "cell_at rows i k =
     (case go_index rows i of
        None \<Rightarrow> Inl (Panic ''index out of range'')
      | Some r \<Rightarrow> (case go_index r k of
                     None \<Rightarrow> Inl (Panic ''index out of range'')
                   | Some c \<Rightarrow> Inr c))"

text \<open>
  \<open>Response.Less\<close>, as a recursion over the remaining sort keys.  \<open>NumberToFloat\<close> is not
  part of \<open>response.go\<close> and is the parameter \<open>n2f\<close>.  Strings compare bytewise, as Go's
  \<open>string\<close> comparison does.
\<close>

fun Less_keys ::
  "(cell \<Rightarrow> real) \<Rightarrow> Column list \<Rightarrow> row list \<Rightarrow> int \<Rightarrow> int \<Rightarrow> SortField list \<Rightarrow> error + bool"
where
  "Less_keys n2f cols rows i j [] = Inr True"
| "Less_keys n2f cols rows i j (s # ss) =
     (case go_index cols (sf_Index s) of
        None \<Rightarrow> Inl (Panic ''index out of range'')
      | Some c \<Rightarrow>
          (if col_Type c = TimeCol \<or> col_Type c = IntCol \<or> col_Type c = FloatCol then
             (case cell_at rows i (sf_Index s) of
                Inl e \<Rightarrow> Inl e
              | Inr a \<Rightarrow>
                  (case cell_at rows j (sf_Index s) of
                     Inl e \<Rightarrow> Inl e
                   | Inr b \<Rightarrow>
                       (let valueA = n2f a; valueB = n2f b in
                        if valueA = valueB then Less_keys n2f cols rows i j ss
                        else if sf_Direction s = Asc then Inr (valueA < valueB)
                        else Inr (valueA > valueB))))
           else if col_Type c = StringCol then
             (case cell_at rows i (sf_Index s) of
                Inl e \<Rightarrow> Inl e
              | Inr (CString s1) \<Rightarrow>
                  (case cell_at rows j (sf_Index s) of
                     Inl e \<Rightarrow> Inl e
                   | Inr (CString s2) \<Rightarrow>
                       (if s1 = s2 then Less_keys n2f cols rows i j ss
                        else if sf_Direction s = Asc then Inr (s1 < s2)
                        else Inr (s1 > s2))
                   | Inr _ \<Rightarrow> Inr (sf_Direction s = Asc))
              | Inr _ \<Rightarrow> Inr (sf_Direction s = Asc))
           else if col_Type c = StringListCol then Inr (sf_Direction s = Asc)
           else if col_Type c = IntListCol then Inr (sf_Direction s = Asc)
           else Inl (Panic ''sorting not implemented for type'')))"

definition Less :: "(cell \<Rightarrow> real) \<Rightarrow> Response \<Rightarrow> int \<Rightarrow> int \<Rightarrow> error + bool" where
  "Less n2f res i j =
     Less_keys n2f (res_Columns res) (elems (res_Result res)) i j (req_Sort (res_Request res))"

text \<open>\<open>Response.Swap\<close>: both index operations panic out of range.\<close>

definition Swap :: "Response \<Rightarrow> int \<Rightarrow> int \<Rightarrow> error + Response" where
  "Swap res i j =
     (case (go_index (elems (res_Result res)) i, go_index (elems (res_Result res)) j) of
        (Some ri, Some rj) \<Rightarrow>
          Inr (res\<lparr>res_Result :=
                 Slice ((elems (res_Result res))[nat i := rj, nat j := ri]) (spare (res_Result res))\<rparr>)
      | _ \<Rightarrow> Inl (Panic ''index out of range''))"


section \<open>Post-processing\<close>

text \<open>
  The sorting step.  \<open>sort.Sort\<close> is Go's library sort; it is the parameter \<open>srt\<close>, which
  receives the comparator (\<open>Less\<close> on the rows as they currently stand) and the visible
  rows and returns them rearranged (or the comparator's panic).  It is called only when
  the request has sort keys.
\<close>

definition sort_step ::
  "((row list \<Rightarrow> int \<Rightarrow> int \<Rightarrow> error + bool) \<Rightarrow> row list \<Rightarrow> error + row list) \<Rightarrow> (cell \<Rightarrow> real)
     \<Rightarrow> Response \<Rightarrow> error + Response"
where
  "sort_step srt n2f res =
     (if length (req_Sort (res_Request res)) > 0 then
        (case srt (\<lambda>rows. Less n2f (res\<lparr>res_Result := Slice rows (spare (res_Result res))\<rparr>))
                (elems (res_Result res)) of
           Inl e \<Rightarrow> Inl e
         | Inr rows' \<Rightarrow> Inr (res\<lparr>res_Result := Slice rows' (spare (res_Result res))\<rparr>))
      else Inr res)"

definition total_step :: "Response \<Rightarrow> Response" where
  "total_step res =
     (if res_ResultTotal res = 0 then res\<lparr>res_ResultTotal := len (res_Result res)\<rparr> else res)"

definition offset_step :: "Response \<Rightarrow> error + Response" where
  "offset_step res =
     (if req_Offset (res_Request res) > 0 then
        (if req_Offset (res_Request res) > res_ResultTotal res then
           Inr (res\<lparr>res_Result := Slice [] []\<rparr>)
         else
           (case slice_from (res_Result res) (req_Offset (res_Request res)) of
              Inl e \<Rightarrow> Inl e
            | Inr s \<Rightarrow> Inr (res\<lparr>res_Result := s\<rparr>)))
      else Inr res)"

definition limit_step :: "Response \<Rightarrow> error + Response" where
  "limit_step res =
     (if req_Limit (res_Request res) > 0 then
        (if req_Limit (res_Request res) < res_ResultTotal res then
           (case slice_to (res_Result res) (req_Limit (res_Request res)) of
              Inl e \<Rightarrow> Inl e
            | Inr s \<Rightarrow> Inr (res\<lparr>res_Result := s\<rparr>))
         else Inr res)
      else Inr res)"

text \<open>The cell one stats spec contributes to the synthesized row (the body of the loop
  over \<open>res.Request.Stats\<close>); an unhandled kind panics before the count is looked at.\<close>

definition stats_cell :: "Stat \<Rightarrow> error + cell" where
  "stats_cell s =
     (case (case st_StatsType s of
              Counter \<Rightarrow> Inr (CFloat (st_Stats s))
            | Min \<Rightarrow> Inr (CFloat (st_Stats s))
            | Max \<Rightarrow> Inr (CFloat (st_Stats s))
            | Sum \<Rightarrow> Inr (CFloat (st_Stats s))
            | Average \<Rightarrow>
                (if st_StatsCount s > 0
                 then Inr (CFloat (st_Stats s / real_of_int (st_StatsCount s)))
                 else Inr (CInt 0))
            | NoStats \<Rightarrow> Inl (Panic ''not implemented'')) of
        Inl e \<Rightarrow> Inl e
      | Inr c \<Rightarrow> (if st_StatsCount s = 0 then Inr (CInt 0) else Inr c))"

fun stats_row :: "Stat list \<Rightarrow> error + row" where
  "stats_row [] = Inr []"
| "stats_row (s # ss) =
     (case stats_cell s of
        Inl e \<Rightarrow> Inl e
      | Inr c \<Rightarrow> (case stats_row ss of Inl e \<Rightarrow> Inl e | Inr cs \<Rightarrow> Inr (c # cs)))"

definition stats_step :: "Response \<Rightarrow> error + Response" where
  "stats_step res =
     (if length (req_Stats (res_Request res)) > 0 then
        (case stats_row (req_Stats (res_Request res)) of
           Inl e \<Rightarrow> Inl e
         | Inr r \<Rightarrow> Inr (res\<lparr>res_Result := Slice [r] []\<rparr>))
      else Inr res)"

text \<open>Sorting, the fixing of \<open>ResultTotal\<close>, offset and limit: everything of
  \<open>BuildResponsePostProcessing\<close> before the stats reduction.\<close>

definition paginate ::
  "((row list \<Rightarrow> int \<Rightarrow> int \<Rightarrow> error + bool) \<Rightarrow> row list \<Rightarrow> error + row list) \<Rightarrow> (cell \<Rightarrow> real)
     \<Rightarrow> Response \<Rightarrow> error + Response"
where
  "paginate srt n2f res =
     (case sort_step srt n2f res of
        Inl e \<Rightarrow> Inl e
      | Inr r1 \<Rightarrow>
          (case offset_step (total_step r1) of
             Inl e \<Rightarrow> Inl e
           | Inr r2 \<Rightarrow> limit_step r2))"

definition BuildResponsePostProcessing ::
  "((row list \<Rightarrow> int \<Rightarrow> int \<Rightarrow> error + bool) \<Rightarrow> row list \<Rightarrow> error + row list) \<Rightarrow> (cell \<Rightarrow> real)
     \<Rightarrow> Response \<Rightarrow> error + Response"
where
  "BuildResponsePostProcessing srt n2f res =
     (case paginate srt n2f res of
        Inl e \<Rightarrow> Inl e
      | Inr r \<Rightarrow> stats_step r)"

section \<open>Sample values\<close>

text \<open>A request with every field empty and a response holding the given rows in a slice
  without spare capacity; the concrete instances below are built from them.\<close>

definition plain_request :: Request where
  "plain_request = \<lparr>req_Table = ''log'', req_Columns = [], req_Filter = [], req_Stats = [],
     req_Sort = [], req_Limit = 0, req_Offset = 0, req_Backends = [], req_OutputFormat = [],
     req_SendColumnsHeader = False, req_ResponseFixed16 = False\<rparr>"

definition plain_response :: "Request \<Rightarrow> row list \<Rightarrow> Response" where
  "plain_response req rows = \<lparr>res_Code = 200, res_Result = Slice rows [], res_ResultTotal = 0,
     res_Request = req, res_Error = None, res_Failed = Map.empty, res_Columns = []\<rparr>"

section \<open>The stats reduction in the words of the specification\<close>

text \<open>A spec with sample count 0 emits 0 whatever its kind; otherwise Average emits
  accumulator divided by count when the count is positive, else 0, and the other kinds
  emit the accumulator.\<close>

definition stats_cell_spec :: "Stat \<Rightarrow> cell" where
  "stats_cell_spec s =
     (if st_StatsCount s = 0 then CInt 0
      else case st_StatsType s of
             Average \<Rightarrow> (if st_StatsCount s > 0
                          then CFloat (st_Stats s / real_of_int (st_StatsCount s)) else CInt 0)
           | _ \<Rightarrow> CFloat (st_Stats s))"

definition stats_sample :: Response where
  "stats_sample = plain_response
     (plain_request\<lparr>req_Offset := 1, req_Limit := 1,
        req_Stats := [\<lparr>st_StatsType = Counter, st_Stats = 5, st_StatsCount = 2\<rparr>,
                      \<lparr>st_StatsType = Average, st_Stats = 10, st_StatsCount = 4\<rparr>,
                      \<lparr>st_StatsType = Sum, st_Stats = 7, st_StatsCount = 0\<rparr>,
                      \<lparr>st_StatsType = Average, st_Stats = 7, st_StatsCount = 0\<rparr>]\<rparr>)
     [[CInt 1], [CInt 2]]"

text \<open>A conversion for the \<open>NumberToFloat\<close> parameter, and a small table with a string, a
  number and a list column, used for concrete instances.\<close>

fun sample_n2f :: "cell \<Rightarrow> real" where
  "sample_n2f (CInt n) = real_of_int n"
| "sample_n2f (CFloat x) = x"
| "sample_n2f _ = 0"

definition name_col :: Column where
  "name_col = \<lparr>col_Name = ''name'', col_Type = StringCol, col_Index = 0, col_RefIndex = 0,
     col_Update = StaticUpdate\<rparr>"

definition state_col :: Column where
  "state_col = \<lparr>col_Name = ''state'', col_Type = IntCol, col_Index = 1, col_RefIndex = 0,
     col_Update = DynamicUpdate\<rparr>"

definition contacts_col :: Column where
  "contacts_col = \<lparr>col_Name = ''contacts'', col_Type = StringListCol, col_Index = 2,
     col_RefIndex = 0, col_Update = StaticUpdate\<rparr>"

definition sample_columns :: "Column list" where
  "sample_columns = [name_col, state_col, contacts_col]"

definition sample_rows :: "row list" where
  "sample_rows = [[CString ''web'', CInt 1, CList []], [CString ''web'', CInt 2, CList []],
                  [CString ''db'', CInt 0, CList []]]"

definition by_name_desc :: SortField where
  "by_name_desc = \<lparr>sf_Name = ''name'', sf_Index = 0, sf_Direction = Desc\<rparr>"

definition by_state_asc :: SortField where
  "by_state_asc = \<lparr>sf_Name = ''state'', sf_Index = 1, sf_Direction = Asc\<rparr>"

definition by_contacts_desc :: SortField where
  "by_contacts_desc = \<lparr>sf_Name = ''contacts'', sf_Index = 2, sf_Direction = Desc\<rparr>"

definition sorted_response :: "SortField list \<Rightarrow> Response" where
  "sorted_response keys =
     (plain_response (plain_request\<lparr>req_Sort := keys\<rparr>) sample_rows)
       \<lparr>res_Columns := sample_columns\<rparr>"


text \<open>A stats request on two rows with offset 3 and limit 1.\<close>

definition stats_offset_sample :: Response where
  "stats_offset_sample = plain_response
     (plain_request\<lparr>req_Offset := 3, req_Limit := 1,
        req_Stats := [\<lparr>st_StatsType = Counter, st_Stats = 5, st_StatsCount = 2\<rparr>]\<rparr>)
     [[CFloat 3], [CFloat 2]]"

section \<open>Rows that compare equal\<close>

text \<open>
  The cells of rows \<open>i\<close> and \<open>j\<close> compare equal at sort key \<open>s\<close>: the key's column is of a
  numeric type (Time, Int, Float) and the two cells have the same numeric value, or it is
  a String column and both cells hold the same string.
\<close>

definition key_equal ::
  "(cell \<Rightarrow> real) \<Rightarrow> Column list \<Rightarrow> row list \<Rightarrow> int \<Rightarrow> int \<Rightarrow> SortField \<Rightarrow> bool" where
  "key_equal n2f cols rows i j s =
     (case (go_index cols (sf_Index s), cell_at rows i (sf_Index s), cell_at rows j (sf_Index s)) of
        (Some c, Inr a, Inr b) \<Rightarrow>
          (if col_Type c = TimeCol \<or> col_Type c = IntCol \<or> col_Type c = FloatCol
           then n2f a = n2f b
           else if col_Type c = StringCol
           then (case (a, b) of (CString s1, CString s2) \<Rightarrow> s1 = s2 | _ \<Rightarrow> False)
           else False)
      | _ \<Rightarrow> False)"

section \<open>The column and index resolver\<close>

record VirtKeyMapTupel =
  vk_Index :: int
  vk_Key :: string
  vk_Type :: ColumnType

definition VirtKeyMap :: "string \<rightharpoonup> VirtKeyMapTupel" where
  "VirtKeyMap = map_of
     [(''key'', \<lparr>vk_Index = -1, vk_Key = ''PeerKey'', vk_Type = StringCol\<rparr>),
      (''name'', \<lparr>vk_Index = -2, vk_Key = ''PeerName'', vk_Type = StringCol\<rparr>),
      (''addr'', \<lparr>vk_Index = -4, vk_Key = ''PeerAddr'', vk_Type = StringCol\<rparr>),
      (''status'', \<lparr>vk_Index = -5, vk_Key = ''PeerStatus'', vk_Type = IntCol\<rparr>),
      (''bytes_send'', \<lparr>vk_Index = -6, vk_Key = ''BytesSend'', vk_Type = IntCol\<rparr>),
      (''bytes_received'', \<lparr>vk_Index = -7, vk_Key = ''BytesReceived'', vk_Type = IntCol\<rparr>),
      (''queries'', \<lparr>vk_Index = -8, vk_Key = ''Querys'', vk_Type = IntCol\<rparr>),
      (''last_error'', \<lparr>vk_Index = -9, vk_Key = ''LastError'', vk_Type = StringCol\<rparr>),
      (''last_online'', \<lparr>vk_Index = -10, vk_Key = ''LastOnline'', vk_Type = TimeCol\<rparr>),
      (''last_update'', \<lparr>vk_Index = -11, vk_Key = ''LastUpdate'', vk_Type = TimeCol\<rparr>),
      (''response_time'', \<lparr>vk_Index = -12, vk_Key = ''ReponseTime'', vk_Type = FloatCol\<rparr>),
      (''state_order'', \<lparr>vk_Index = -13, vk_Key = [], vk_Type = IntCol\<rparr>),
      (''last_state_change_order'', \<lparr>vk_Index = -14, vk_Key = [], vk_Type = IntCol\<rparr>)]"

text \<open>\<open>VirtKeyMap[col]\<close>: a Go map lookup of a missing key gives the zero value.\<close>

definition virt_key :: "string \<Rightarrow> VirtKeyMapTupel" where
  "virt_key col =
     (case VirtKeyMap col of
        Some t \<Rightarrow> t
      | None \<Rightarrow> \<lparr>vk_Index = 0, vk_Key = [], vk_Type = UnknownCol\<rparr>)"

text \<open>The columns a request without columns and stats is expanded to.\<close>

definition default_column :: "Column \<Rightarrow> bool" where
  "default_column col \<longleftrightarrow>
     col_Update col = StaticUpdate \<or> col_Update col = DynamicUpdate
     \<or> col_Update col = VirtUpdate \<or> col_Type col = VirtCol"

text \<open>The first block of \<open>BuildResponseIndexes\<close>: it writes to the request.\<close>

definition expand_columns :: "Request \<Rightarrow> Table \<Rightarrow> Request" where
  "expand_columns req table =
     (if length (req_Columns req) = 0 \<and> length (req_Stats req) = 0 then
        req\<lparr>req_SendColumnsHeader := True,
            req_Columns := fold (\<lambda>col cols. if default_column col then cols @ [col_Name col]
                                              else cols)
                             (tbl_Columns table) (req_Columns req)\<rparr>
      else req)"

text \<open>
  The loop over the requested columns, from position \<open>j\<close> on, with the accumulated
  indexes, columns and \<open>requestColumnsMap\<close>.  \<open>strings.ToLower\<close> is the parameter \<open>lower\<close>.
  Fields that a \<open>Column\<close> literal of the source leaves out take the zero value.
\<close>

fun resolve_columns ::
  "(string \<Rightarrow> string) \<Rightarrow> string \<Rightarrow> Table \<Rightarrow> int \<Rightarrow> string list
     \<Rightarrow> int list \<times> Column list \<times> (string \<rightharpoonup> int)
     \<Rightarrow> error + int list \<times> Column list \<times> (string \<rightharpoonup> int)"
where
  "resolve_columns lower tname table j [] acc = Inr acc"
| "resolve_columns lower tname table j (c # cs) (indexes, columns, requestColumnsMap) =
     (let col = lower c in
      case tbl_ColumnsIndex table col of
        None \<Rightarrow> Inl (Err (''bad request: table '' @ tname @ '' has no column '' @ col))
      | Some i \<Rightarrow>
          (case go_index (tbl_Columns table) i of
             None \<Rightarrow> Inl (Panic ''index out of range'')
           | Some tc \<Rightarrow>
               (if col_Type tc = VirtCol then
                  resolve_columns lower tname table (j + 1) cs
                    (indexes @ [vk_Index (virt_key col)],
                     columns @ [\<lparr>col_Name = col, col_Type = vk_Type (virt_key col),
                                  col_Index = j, col_RefIndex = i, col_Update = OtherUpdate\<rparr>],
                     requestColumnsMap(col \<mapsto> j))
                else
                  resolve_columns lower tname table (j + 1) cs
                    (indexes @ [i],
                     columns @ [\<lparr>col_Name = col, col_Type = col_Type tc,
                                  col_Index = j, col_RefIndex = 0, col_Update = OtherUpdate\<rparr>],
                     requestColumnsMap(col \<mapsto> j)))))"

text \<open>The loop over the sort specs: each spec that passes both checks has its index
  rewritten; the loop stops at the first that does not.\<close>

fun check_sort ::
  "string \<Rightarrow> Table \<Rightarrow> (string \<rightharpoonup> int) \<Rightarrow> SortField list \<Rightarrow> SortField list \<times> error option"
where
  "check_sort tname table requestColumnsMap [] = ([], None)"
| "check_sort tname table requestColumnsMap (s # ss) =
     (case tbl_ColumnsIndex table (sf_Name s) of
        None \<Rightarrow> (s # ss, Some (Err (''bad request: table '' @ tname @ '' has no column ''
                                      @ sf_Name s @ '' to sort'')))
      | Some _ \<Rightarrow>
          (case requestColumnsMap (sf_Name s) of
             None \<Rightarrow> (s # ss, Some (Err (''bad request: sort column '' @ sf_Name s
                                           @ '' not in result set'')))
           | Some i \<Rightarrow>
               (case check_sort tname table requestColumnsMap ss of
                  (ss', e) \<Rightarrow> (s\<lparr>sf_Index := i\<rparr> # ss', e))))"

text \<open>\<open>BuildResponseIndexes\<close> returns the request as it has left it, and the error or
  the indexes and columns.\<close>

definition BuildResponseIndexes ::
  "(string \<Rightarrow> string) \<Rightarrow> Request \<Rightarrow> Table \<Rightarrow> Request \<times> (error + int list \<times> Column list)"
where
  "BuildResponseIndexes lower req table =
     (let req1 = expand_columns req table in
      case resolve_columns lower (req_Table req1) table 0 (req_Columns req1) ([], [], Map.empty) of
        Inl e \<Rightarrow> (req1, Inl e)
      | Inr (indexes, columns, requestColumnsMap) \<Rightarrow>
          (case check_sort (req_Table req1) table requestColumnsMap (req_Sort req1) of
             (sort', Some e) \<Rightarrow> (req1\<lparr>req_Sort := sort'\<rparr>, Inl e)
           | (sort', None) \<Rightarrow> (req1\<lparr>req_Sort := sort'\<rparr>, Inr (indexes, columns))))"

text \<open>An ASCII instance of the \<open>strings.ToLower\<close> parameter and a table with a static, a
  dynamic, an otherwise updated and a virtual column.\<close>

definition ascii_lower :: "string \<Rightarrow> string" where
  "ascii_lower = map (\<lambda>c. case map_of (zip ''ABCDEFGHIJKLMNOPQRSTUVWXYZ''
                                              ''abcdefghijklmnopqrstuvwxyz'') c of
                           Some l \<Rightarrow> l | None \<Rightarrow> c)"

definition hosts_table :: Table where
  "hosts_table = \<lparr>tbl_Name = ''hosts'',
     tbl_Columns = [name_col, state_col,
       \<lparr>col_Name = ''custom'', col_Type = StringCol, col_Index = 2, col_RefIndex = 0,
          col_Update = OtherUpdate\<rparr>,
       \<lparr>col_Name = ''last_error'', col_Type = VirtCol, col_Index = 3, col_RefIndex = 0,
          col_Update = OtherUpdate\<rparr>],
     tbl_ColumnsIndex = map_of [(''name'', 0), (''state'', 1), (''custom'', 2), (''last_error'', 3)],
     tbl_PassthroughOnly = False, tbl_DynamicColCacheIndexes = [1]\<rparr>"

section \<open>The wire encoder\<close>

text \<open>\<open>append(s, ys...)\<close>: appending nothing returns \<open>s\<close>; elements that fit into the
  capacity overwrite the spare cells; otherwise a new array is allocated, whose capacity
  is the runtime's choice and is modelled as exactly the new length.\<close>

definition append_slice :: "'a slice \<Rightarrow> 'a list \<Rightarrow> 'a slice" where
  "append_slice s ys =
     (if ys = [] then s
      else if length ys \<le> length (spare s)
      then Slice (elems s @ ys) (drop (length ys) (spare s))
      else Slice (elems s @ ys) [])"

text \<open>Decimal formatting, as \<open>%d\<close> and \<open>%11d\<close> of \<open>fmt.Sprintf\<close> do it.\<close>

fun digits :: "nat \<Rightarrow> string" where
  "digits n =
     (if n < 10 then [''0123456789'' ! n]
      else digits (n div 10) @ [''0123456789'' ! (n mod 10)])"

declare digits.simps [simp del]

definition show_int :: "int \<Rightarrow> string" where
  "show_int i = (if i < 0 then ''-'' @ digits (nat (- i)) else digits (nat i))"

definition pad_left :: "nat \<Rightarrow> string \<Rightarrow> string" where
  "pad_left w s = replicate (w - length s) (CHR '' '') @ s"

definition nl :: string where
  "nl = [CHR 0x0A]"

definition dquote :: string where
  "dquote = [CHR 0x22]"

text \<open>\<open>fmt.Sprintf("%d %11d\n", code, n)\<close>\<close>

definition status_line :: "int \<Rightarrow> int \<Rightarrow> string" where
  "status_line code n = show_int code @ '' '' @ pad_left 11 (show_int n) @ nl"

text \<open>The loop \<open>cols[i] = v\<close> over the request's columns, from position \<open>i\<close> on.\<close>

fun fill_cols :: "nat \<Rightarrow> string list \<Rightarrow> row \<Rightarrow> row" where
  "fill_cols i [] cols = cols"
| "fill_cols i (v # vs) cols = fill_cols (Suc i) vs (cols[i := CString v])"

definition header_row :: "Request \<Rightarrow> row" where
  "header_row req =
     fill_cols 0 (req_Columns req)
       (replicate (length (req_Columns req) + length (req_Stats req)) CNil)"

definition send_header :: "Response \<Rightarrow> Response" where
  "send_header res =
     (if req_SendColumnsHeader (res_Request res) then
        res\<lparr>res_Result :=
              append_slice (append_slice NilSlice [header_row (res_Request res)])
                (elems (res_Result res))\<rparr>
      else res)"

text \<open>The loop that appends the rows; \<open>json.Marshal\<close> of a row is the parameter \<open>mr\<close>.\<close>

fun marshal_rows ::
  "(row \<Rightarrow> error + string) \<Rightarrow> nat \<Rightarrow> row list \<Rightarrow> string \<Rightarrow> error + string" where
  "marshal_rows mr i [] resBytes = Inr resBytes"
| "marshal_rows mr i (r # rs) resBytes =
     (case mr r of
        Inl jerr \<Rightarrow> Inl jerr
      | Inr rowBytes \<Rightarrow>
          marshal_rows mr (Suc i) rs
            ((if i > 0 then resBytes @ '','' @ nl else resBytes) @ rowBytes))"

text \<open>The body \<open>resBytes\<close>; \<open>json.Marshal\<close> of the \<open>Failed\<close> map is the parameter \<open>mf\<close>.\<close>

definition encode_body ::
  "(row \<Rightarrow> error + string) \<Rightarrow> ((string \<rightharpoonup> string) \<Rightarrow> string) \<Rightarrow> Response \<Rightarrow> error + string"
where
  "encode_body mr mf res =
     (let fmt = req_OutputFormat (res_Request res) in
      case res_Error res of
        Some e \<Rightarrow> Inr e
      | None \<Rightarrow>
          (if res_Result res \<noteq> NilSlice then
             (let b1 = (if fmt = ''wrapped_json'' then ''{'' @ dquote @ ''data'' @ dquote @ '':[''
                        else []);
                  b2 = (if fmt = ''json'' \<or> fmt = [] then b1 @ ''['' else b1)
              in case (if fmt = ''wrapped_json'' \<or> fmt = ''json'' \<or> fmt = []
                       then (case marshal_rows mr 0 (elems (res_Result res)) b2 of
                               Inl jerr \<Rightarrow> Inl jerr
                             | Inr b \<Rightarrow> Inr (b @ '']''))
                       else Inr b2) of
                   Inl jerr \<Rightarrow> Inl jerr
                 | Inr b3 \<Rightarrow>
                     (if fmt = ''wrapped_json''
                      then Inr (b3 @ nl @ '','' @ dquote @ ''failed'' @ dquote @ '':''
                                @ mf (res_Failed res)
                                @ nl @ '','' @ dquote @ ''total'' @ dquote @ '':''
                                @ show_int (res_ResultTotal res) @ ''}'')
                      else Inr b3))
           else Inr []))"

text \<open>
  \<open>Send\<close> returns the response as it has left it, the error or the size, and the chunks
  written to the connection, in order.  The connection is taken to accept every write.
\<close>

definition Send ::
  "(row \<Rightarrow> error + string) \<Rightarrow> ((string \<rightharpoonup> string) \<Rightarrow> string) \<Rightarrow> Response
     \<Rightarrow> Response \<times> (error + int) \<times> string list"
where
  "Send mr mf res =
     (let res1 = send_header res in
      case encode_body mr mf res1 of
        Inl jerr \<Rightarrow> (res1, Inl jerr, [])
      | Inr resBytes \<Rightarrow>
          (let n = int (length resBytes) + 1 in
           (res1, Inr n,
            (if req_ResponseFixed16 (res_Request res1) then [status_line (res_Code res1) n]
             else [])
            @ [resBytes, nl])))"

text \<open>A response carrying a 42-byte error text with fixed framing requested, a response
  whose request asks for the header with one column and one stats spec, and a row encoder
  that fails.\<close>

definition error_response :: Response where
  "error_response =
     (plain_response (plain_request\<lparr>req_ResponseFixed16 := True\<rparr>) [])
       \<lparr>res_Error := Some ''bad request: table hosts has no column nam''\<rparr>"

definition header_sample :: Response where
  "header_sample = plain_response
     (plain_request\<lparr>req_SendColumnsHeader := True, req_Columns := [''name''],
        req_Stats := [\<lparr>st_StatsType = Counter, st_Stats = 5, st_StatsCount = 2\<rparr>]\<rparr>)
     [[CString ''web'', CFloat 5]]"

definition failing_marshal :: "row \<Rightarrow> error + string" where
  "failing_marshal r = Inl (Err ''json: unsupported value'')"

section \<open>Peers and collaborators\<close>

text \<open>
  Modelled from the spec: the \<open>Peer\<close> type and the peer registry are not part of
  \<open>response.go\<close>.  A peer has an id, a name and a status map whose values are of several
  dynamic types; the read lock taken around each access of the status map is not modelled.
\<close>

datatype PeerStatus = PeerStatusUp | PeerStatusDown | PeerStatusOther

datatype StatusVal = SPeerStatus PeerStatus | SBool bool | SCell cell

record Peer =
  peer_ID :: string
  peer_Name :: string
  peer_Status :: "string \<rightharpoonup> StatusVal"

datatype event =
  SpinUp "string list" | PeerQuery string Request | LocalData string | PostProcessing

text \<open>
  What \<open>response.go\<close> uses and does not define: the table catalog \<open>Objects.Tables\<close>, the
  registry \<open>DataStore\<close> with its order, \<open>Peer.Query\<close> (an \<open>Err\<close> is the error it returns),
  \<open>Peer.GetRowValue\<close>, \<open>Peer.BuildLocalResponseData\<close>, \<open>fmt.Sprintf("%v", _)\<close> of a status
  entry, \<open>strings.ToLower\<close>, \<open>sort.Sort\<close> and \<open>NumberToFloat\<close>.
\<close>

record World =
  w_Tables :: "string \<rightharpoonup> Table"
  w_DataStore :: "string \<rightharpoonup> Peer"
  w_DataStoreOrder :: "string list"
  w_Query :: "Peer \<Rightarrow> Request \<Rightarrow> error + row list"
  w_GetRowValue :: "Peer \<Rightarrow> int \<Rightarrow> row \<Rightarrow> int \<Rightarrow> Table \<Rightarrow> int \<Rightarrow> cell"
  w_BuildLocalResponseData :: "Peer \<Rightarrow> Response \<Rightarrow> Request \<Rightarrow> int \<Rightarrow> int list \<Rightarrow> Response"
  w_Sprint :: "StatusVal option \<Rightarrow> string"
  w_ToLower :: "string \<Rightarrow> string"
  w_Sort :: "(row list \<Rightarrow> int \<Rightarrow> int \<Rightarrow> error + bool) \<Rightarrow> row list \<Rightarrow> error + row list"
  w_NumberToFloat :: "cell \<Rightarrow> real"

text \<open>\<open>DataStore[id]\<close> and \<open>Objects.Tables[name]\<close>: a missing key gives the zero value.\<close>

definition lookup_peer :: "World \<Rightarrow> string \<Rightarrow> Peer" where
  "lookup_peer W ident =
     (case w_DataStore W ident of
        Some p \<Rightarrow> p
      | None \<Rightarrow> \<lparr>peer_ID = [], peer_Name = [], peer_Status = Map.empty\<rparr>)"

definition lookup_table :: "World \<Rightarrow> string \<Rightarrow> Table" where
  "lookup_table W name =
     (case w_Tables W name of
        Some t \<Rightarrow> t
      | None \<Rightarrow> \<lparr>tbl_Name = [], tbl_Columns = [], tbl_ColumnsIndex = Map.empty,
                  tbl_PassthroughOnly = False, tbl_DynamicColCacheIndexes = []\<rparr>)"

section \<open>The passthrough collector\<close>

text \<open>
  The splice of one virtual column into a row: \<open>row = append(row, 0)\<close>,
  \<open>copy(row[i+1:], row[i:])\<close>, \<open>row[i] = GetRowValue(...)\<close>.  The two slice expressions
  panic unless \<open>0 \<le> i\<close> and \<open>i + 1 \<le> len(row)\<close>; \<open>gv\<close> is \<open>GetRowValue\<close> of the peer at the
  column's \<open>RefIndex\<close>, and it is given the row as the copy has left it.
\<close>

definition insert_virt :: "(int \<Rightarrow> row \<Rightarrow> cell) \<Rightarrow> row \<Rightarrow> Column \<Rightarrow> error + row" where
  "insert_virt gv row col =
     (let i = col_Index col;
          row1 = row @ [CInt 0]
      in if i < 0 \<or> int (length row1) < i + 1 then Inl (Panic ''slice bounds out of range'')
         else
           (let row2 = take (nat i + 1) row1
                       @ take (length row1 - (nat i + 1)) (drop (nat i) row1)
            in Inr (row2[nat i := gv (col_RefIndex col) row2])))"

fun splice_virt :: "(int \<Rightarrow> row \<Rightarrow> cell) \<Rightarrow> Column list \<Rightarrow> row \<Rightarrow> error + row" where
  "splice_virt gv [] row = Inr row"
| "splice_virt gv (col # cols) row =
     (case insert_virt gv row col of
        Inl e \<Rightarrow> Inl e
      | Inr row' \<Rightarrow> splice_virt gv cols row')"

text \<open>The loop over the rows a peer returned, from row number \<open>j\<close> on.\<close>

fun splice_rows ::
  "(int \<Rightarrow> int \<Rightarrow> row \<Rightarrow> cell) \<Rightarrow> Column list \<Rightarrow> int \<Rightarrow> row list \<Rightarrow> error + row list" where
  "splice_rows gvj virtColumns j [] = Inr []"
| "splice_rows gvj virtColumns j (row # rows) =
     (case splice_virt (gvj j) virtColumns row of
        Inl e \<Rightarrow> Inl e
      | Inr row' \<Rightarrow>
          (case splice_rows gvj virtColumns (j + 1) rows of
             Inl e \<Rightarrow> Inl e
           | Inr rows' \<Rightarrow> Inr (row' # rows')))"

definition insert_virtual_values ::
  "World \<Rightarrow> Peer \<Rightarrow> Table \<Rightarrow> int \<Rightarrow> Column list \<Rightarrow> row list \<Rightarrow> error + row list" where
  "insert_virtual_values W peer table numPerRow virtColumns result =
     (if length virtColumns > 0 then
        splice_rows (\<lambda>j ref row. w_GetRowValue W peer ref row j table numPerRow)
          virtColumns 0 result
      else Inr result)"

definition backendColumns :: "Column list \<Rightarrow> string list" where
  "backendColumns columns = map col_Name (filter (\<lambda>col. \<not> col_RefIndex col > 0) columns)"

definition virtColumns :: "Column list \<Rightarrow> Column list" where
  "virtColumns columns = filter (\<lambda>col. col_RefIndex col > 0) columns"

definition passthroughRequest :: "Request \<Rightarrow> Column list \<Rightarrow> Request" where
  "passthroughRequest req columns =
     \<lparr>req_Table = req_Table req, req_Columns = backendColumns columns,
      req_Filter = req_Filter req, req_Stats = req_Stats req, req_Sort = [],
      req_Limit = req_Limit req, req_Offset = 0, req_Backends = [],
      req_OutputFormat = ''json'', req_SendColumnsHeader = False,
      req_ResponseFixed16 = True\<rparr>"

text \<open>
  The units started by \<open>BuildPassThroughResult\<close> run concurrently with the launching loop
  and with each other.  They share the response and the function's named result \<open>err\<close>,
  which every unit assigns when its query returns and reads afterwards; the mutex is
  created anew in each iteration of the loop, so it excludes no other unit.  A unit is
  therefore modelled statement by statement.  Its local state is its phase: \<open>Launched\<close>
  (the query has not returned), \<open>Returned result\<close> (\<open>result, err = peer.Query(...)\<close> has
  been assigned; \<open>result\<close> is empty when the query failed), \<open>Failing\<close> (\<open>err != nil\<close> was
  found true), \<open>Traced\<close> (the trace line has read \<open>err.Error()\<close>), \<open>Succeeding result\<close>
  (\<open>err != nil\<close> was found false).
\<close>

datatype phase = Launched | Returned "row list" | Failing | Traced | Succeeding "row list"

text \<open>
  The state of a running \<open>BuildPassThroughResult\<close>: the peers the launching loop has not
  visited yet, the launched units that have not finished, each with its phase, the shared
  response, the shared \<open>err\<close> variable, and the queries that have returned so far (peer
  and request).
\<close>

record pt_state =
  pt_todo :: "string list"
  pt_pending :: "(Peer \<times> phase) list"
  pt_res :: Response
  pt_err :: "string option"
  pt_queries :: "(Peer \<times> Request) list"

text \<open>One iteration of the launching loop, for the peer id \<open>ident\<close>.\<close>

definition pt_launch :: "World \<Rightarrow> string \<Rightarrow> pt_state \<Rightarrow> error + pt_state" where
  "pt_launch W ident st =
     (let p = lookup_peer W ident in
      case peer_Status p ''PeerStatus'' of
        Some (SPeerStatus s) \<Rightarrow>
          (if s = PeerStatusDown then
             Inr (st\<lparr>pt_res := (pt_res st)\<lparr>res_Failed :=
                     (res_Failed (pt_res st))(peer_ID p \<mapsto> w_Sprint W (peer_Status p ''LastError''))\<rparr>\<rparr>)
           else Inr (st\<lparr>pt_pending := pt_pending st @ [(p, Launched)]\<rparr>))
      | _ \<Rightarrow> Inl (Panic ''interface conversion''))"

text \<open>
  The next statement of the unit of peer \<open>p\<close> in phase \<open>ph\<close>: it returns the unit's new
  phase (\<open>None\<close> when the unit has finished) and the new shared state.  \<open>err.Error()\<close>
  on a \<open>nil\<close> error panics.
\<close>

definition pt_unit ::
  "World \<Rightarrow> Table \<Rightarrow> Column list \<Rightarrow> int \<Rightarrow> Peer \<Rightarrow> phase \<Rightarrow> pt_state
     \<Rightarrow> error + phase option \<times> pt_state"
where
  "pt_unit W table columns numPerRow p ph st =
     (case ph of
        Launched \<Rightarrow>
          (let req = passthroughRequest (res_Request (pt_res st)) columns;
               st1 = st\<lparr>pt_queries := pt_queries st @ [(p, req)]\<rparr>
           in case w_Query W p req of
                Inl (Panic m) \<Rightarrow> Inl (Panic m)
              | Inl (Err m) \<Rightarrow> Inr (Some (Returned []), st1\<lparr>pt_err := Some m\<rparr>)
              | Inr result \<Rightarrow> Inr (Some (Returned result), st1\<lparr>pt_err := None\<rparr>))
      | Returned result \<Rightarrow>
          (case pt_err st of
             Some m \<Rightarrow> Inr (Some Failing, st)
           | None \<Rightarrow> Inr (Some (Succeeding result), st))
      | Failing \<Rightarrow>
          (case pt_err st of
             Some m \<Rightarrow> Inr (Some Traced, st)
           | None \<Rightarrow> Inl (Panic ''nil pointer dereference''))
      | Traced \<Rightarrow>
          (case pt_err st of
             Some m \<Rightarrow>
               Inr (None, st\<lparr>pt_res := (pt_res st)\<lparr>res_Failed :=
                                  (res_Failed (pt_res st))(peer_ID p \<mapsto> m)\<rparr>\<rparr>)
           | None \<Rightarrow> Inl (Panic ''nil pointer dereference''))
      | Succeeding result \<Rightarrow>
          (case insert_virtual_values W p table numPerRow (virtColumns columns) result of
             Inl e \<Rightarrow> Inl e
           | Inr result' \<Rightarrow>
               Inr (None, st\<lparr>pt_res := (pt_res st)\<lparr>res_Result :=
                                  append_slice (res_Result (pt_res st)) result'\<rparr>\<rparr>)))"

text \<open>
  A schedule is a list of choices: \<open>Advance\<close> lets the loop do its next iteration,
  \<open>Unit k\<close> lets the \<open>k\<close>-th unfinished unit execute its next statement.  A choice that is
  not enabled does nothing.  Each statement runs undivided, so every run of the model is
  a run of the program.
\<close>

datatype choice = Advance | Unit nat

fun pt_step ::
  "World \<Rightarrow> Table \<Rightarrow> Column list \<Rightarrow> int \<Rightarrow> choice \<Rightarrow> pt_state \<Rightarrow> error + pt_state" where
  "pt_step W table columns numPerRow Advance st =
     (case pt_todo st of
        [] \<Rightarrow> Inr st
      | ident # rest \<Rightarrow> pt_launch W ident (st\<lparr>pt_todo := rest\<rparr>))"
| "pt_step W table columns numPerRow (Unit k) st =
     (if k < length (pt_pending st) then
        (case pt_unit W table columns numPerRow (fst (pt_pending st ! k))
                (snd (pt_pending st ! k)) st of
           Inl e \<Rightarrow> Inl e
         | Inr (None, st') \<Rightarrow>
             Inr (st'\<lparr>pt_pending := take k (pt_pending st) @ drop (Suc k) (pt_pending st)\<rparr>)
         | Inr (Some ph', st') \<Rightarrow>
             Inr (st'\<lparr>pt_pending := (pt_pending st)[k := (fst (pt_pending st ! k), ph')]\<rparr>))
      else Inr st)"

fun pt_run ::
  "World \<Rightarrow> Table \<Rightarrow> Column list \<Rightarrow> int \<Rightarrow> choice list \<Rightarrow> pt_state \<Rightarrow> error + pt_state" where
  "pt_run W table columns numPerRow [] st = Inr st"
| "pt_run W table columns numPerRow (c # cs) st =
     (case pt_step W table columns numPerRow c st of
        Inl e \<Rightarrow> Inl e
      | Inr st' \<Rightarrow> pt_run W table columns numPerRow cs st')"

text \<open>\<open>waitgroup.Wait()\<close>: whatever the schedule has left undone is done, the rest of the
  loop first, then the unfinished units one after the other in the order of their launch
  (a unit has at most four statements left).\<close>

definition pt_wait ::
  "World \<Rightarrow> Table \<Rightarrow> Column list \<Rightarrow> int \<Rightarrow> pt_state \<Rightarrow> error + pt_state" where
  "pt_wait W table columns numPerRow st =
     (case pt_run W table columns numPerRow (map (\<lambda>ident. Advance) (pt_todo st)) st of
        Inl e \<Rightarrow> Inl e
      | Inr st1 \<Rightarrow>
          pt_run W table columns numPerRow
            (concat (map (\<lambda>u. [Unit 0, Unit 0, Unit 0, Unit 0]) (pt_pending st1))) st1)"

text \<open>\<open>BuildPassThroughResult\<close> under the schedule \<open>sched\<close>: it returns the response, the
  \<open>err\<close> it returns, and the queries that were issued.\<close>

definition BuildPassThroughResult ::
  "World \<Rightarrow> choice list \<Rightarrow> Response \<Rightarrow> string list \<Rightarrow> Table \<Rightarrow> Column list \<Rightarrow> int
     \<Rightarrow> error + Response \<times> string option \<times> (Peer \<times> Request) list"
where
  "BuildPassThroughResult W sched res peers table columns numPerRow =
     (let init = \<lparr>pt_todo = peers, pt_pending = [],
                  pt_res = res\<lparr>res_Result := Slice [] []\<rparr>,
                  pt_err = None, pt_queries = []\<rparr>
      in case pt_run W table columns numPerRow sched init of
           Inl e \<Rightarrow> Inl e
         | Inr st \<Rightarrow>
             (case pt_wait W table columns numPerRow st of
                Inl e \<Rightarrow> Inl e
              | Inr st' \<Rightarrow> Inr (pt_res st', pt_err st', pt_queries st')))"

section \<open>Building a response\<close>

text \<open>\<open>ExpandRequestBackends\<close>: the loop over the requested backends, then the function.\<close>

fun expand_backends :: "World \<Rightarrow> string list \<Rightarrow> (string \<rightharpoonup> string) \<Rightarrow> error + (string \<rightharpoonup> string)"
where
  "expand_backends W [] backendsMap = Inr backendsMap"
| "expand_backends W (b # bs) backendsMap =
     (case w_DataStore W b of
        None \<Rightarrow> Inl (Err (''bad request: backend '' @ b @ '' does not exist''))
      | Some _ \<Rightarrow> expand_backends W bs (backendsMap(b \<mapsto> b)))"

definition ExpandRequestBackends :: "World \<Rightarrow> Request \<Rightarrow> error + (string \<rightharpoonup> string) \<times> int" where
  "ExpandRequestBackends W req =
     (let numBackendsReq = int (length (req_Backends req)) in
      if numBackendsReq > 0 then
        (case expand_backends W (req_Backends req) Map.empty of
           Inl e \<Rightarrow> Inl e
         | Inr backendsMap \<Rightarrow> Inr (backendsMap, numBackendsReq))
      else Inr (Map.empty, numBackendsReq))"

text \<open>The loop over \<open>DataStoreOrder\<close> that selects the peers and those to spin up.\<close>

fun select_peers ::
  "World \<Rightarrow> Table \<Rightarrow> (string \<rightharpoonup> string) \<Rightarrow> int \<Rightarrow> string list \<Rightarrow> string list \<times> string list
     \<Rightarrow> error + string list \<times> string list"
where
  "select_peers W table backendsMap numBackendsReq [] acc = Inr acc"
| "select_peers W table backendsMap numBackendsReq (ident # ids) (selectedPeers, spinUpPeers) =
     (let p = lookup_peer W ident in
      if numBackendsReq > 0 \<and> backendsMap (peer_ID p) = None then
        select_peers W table backendsMap numBackendsReq ids (selectedPeers, spinUpPeers)
      else if tbl_PassthroughOnly table then
        select_peers W table backendsMap numBackendsReq ids (selectedPeers @ [ident], spinUpPeers)
      else
        (case peer_Status p ''Idling'' of
           Some (SBool idling) \<Rightarrow>
             select_peers W table backendsMap numBackendsReq ids
               (selectedPeers @ [ident],
                if idling \<and> length (tbl_DynamicColCacheIndexes table) > 0
                then spinUpPeers @ [ident] else spinUpPeers)
         | _ \<Rightarrow> Inl (Panic ''interface conversion'')))"

text \<open>The loop of the aggregation mode over the selected peers.\<close>

fun collect_local ::
  "World \<Rightarrow> Table \<Rightarrow> Request \<Rightarrow> int \<Rightarrow> int list \<Rightarrow> string list \<Rightarrow> Response \<times> event list
     \<Rightarrow> Response \<times> event list"
where
  "collect_local W table req numPerRow indexes [] acc = acc"
| "collect_local W table req numPerRow indexes (ident # ids) (res, evs) =
     (let p = lookup_peer W ident;
          res' = w_BuildLocalResponseData W p res req numPerRow indexes;
          evs' = evs @ [LocalData ident]
      in if tbl_Name table = ''tables'' \<or> tbl_Name table = ''columns'' then (res', evs')
         else collect_local W table req numPerRow indexes ids (res', evs'))"

text \<open>
  \<open>BuildResponse\<close> under the schedule \<open>sched\<close> of its passthrough units.  It returns the
  response, the error (\<open>None\<close> for \<open>nil\<close>; a panic appears as the error as well) and the
  events in the order they happened: the spin-up signal, every query sent to a peer,
  every read of a peer's local data, and the start of post-processing.  The value that
  \<open>BuildPassThroughResult\<close> returns is dropped, as in the source.
\<close>

definition BuildResponse ::
  "World \<Rightarrow> choice list \<Rightarrow> Request \<Rightarrow> Response \<times> error option \<times> event list" where
  "BuildResponse W sched req0 =
     (let table = lookup_table W (req_Table req0) in
      case BuildResponseIndexes (w_ToLower W) req0 table of (req, r) \<Rightarrow>
      let res = \<lparr>res_Code = 200, res_Result = NilSlice, res_ResultTotal = 0, res_Request = req,
                 res_Error = None, res_Failed = Map.empty, res_Columns = []\<rparr> in
      case r of
        Inl e \<Rightarrow> (res, Some e, [])
      | Inr (indexes, columns) \<Rightarrow>
      let res = res\<lparr>res_Columns := columns\<rparr>;
          numPerRow = int (length indexes) in
      case ExpandRequestBackends W req of
        Inl e \<Rightarrow> (res, Some e, [])
      | Inr (backendsMap, numBackendsReq) \<Rightarrow>
      case select_peers W table backendsMap numBackendsReq (w_DataStoreOrder W) ([], []) of
        Inl e \<Rightarrow> (res, Some e, [])
      | Inr (selectedPeers, spinUpPeers) \<Rightarrow>
      let evs = (if length spinUpPeers > 0 then [SpinUp spinUpPeers] else []) in
      case (if tbl_Name table = ''tables'' \<or> tbl_Name table = ''columns''
            then (case w_DataStoreOrder W of
                    [] \<Rightarrow> Inl (Panic ''index out of range'')
                  | first # _ \<Rightarrow> Inr [first])
            else Inr selectedPeers) of
        Inl e \<Rightarrow> (res, Some e, evs)
      | Inr selectedPeers \<Rightarrow>
      case (if tbl_PassthroughOnly table then
              (case BuildPassThroughResult W sched res selectedPeers table columns numPerRow of
                 Inl e \<Rightarrow> Inl e
               | Inr (res', _, queries) \<Rightarrow>
                   Inr (res', evs @ map (\<lambda>(p, q). PeerQuery (peer_ID p) q) queries))
            else Inr (collect_local W table req numPerRow indexes selectedPeers (res, evs))) of
        Inl e \<Rightarrow> (res, Some e, evs)
      | Inr (res, evs) \<Rightarrow>
      let res = (if res_Result res = NilSlice then res\<lparr>res_Result := Slice [] []\<rparr> else res) in
      case BuildResponsePostProcessing (w_Sort W) (w_NumberToFloat W) res of
        Inl e \<Rightarrow> (res, Some e, evs @ [PostProcessing])
      | Inr res' \<Rightarrow> (res', None, evs @ [PostProcessing]))"

text \<open>A passthrough table with a virtual column, three peers of which the second is
  down, and a world in which the first peer answers with two rows and every other peer's
  query fails.\<close>

definition log_table :: Table where
  "log_table = \<lparr>tbl_Name = ''log'',
     tbl_Columns =
       [\<lparr>col_Name = ''time'', col_Type = TimeCol, col_Index = 0, col_RefIndex = 0,
          col_Update = StaticUpdate\<rparr>,
        \<lparr>col_Name = ''message'', col_Type = StringCol, col_Index = 1, col_RefIndex = 0,
          col_Update = StaticUpdate\<rparr>,
        \<lparr>col_Name = ''last_error'', col_Type = VirtCol, col_Index = 2, col_RefIndex = 0,
          col_Update = OtherUpdate\<rparr>],
     tbl_ColumnsIndex = map_of [(''time'', 0), (''message'', 1), (''last_error'', 2)],
     tbl_PassthroughOnly = True, tbl_DynamicColCacheIndexes = []\<rparr>"

definition peer_a :: Peer where
  "peer_a = \<lparr>peer_ID = ''ida'', peer_Name = ''A'',
     peer_Status = map_of [(''PeerStatus'', SPeerStatus PeerStatusUp), (''Idling'', SBool False),
                           (''LastError'', SCell (CString []))]\<rparr>"

definition peer_b :: Peer where
  "peer_b = \<lparr>peer_ID = ''idb'', peer_Name = ''B'',
     peer_Status = map_of [(''PeerStatus'', SPeerStatus PeerStatusDown), (''Idling'', SBool False),
                           (''LastError'', SCell (CString ''timeout''))]\<rparr>"

definition peer_c :: Peer where
  "peer_c = \<lparr>peer_ID = ''idc'', peer_Name = ''C'',
     peer_Status = map_of [(''PeerStatus'', SPeerStatus PeerStatusUp), (''Idling'', SBool False),
                           (''LastError'', SCell (CString []))]\<rparr>"

definition sample_world :: World where
  "sample_world =
     \<lparr>w_Tables = map_of [(''hosts'', hosts_table), (''log'', log_table)],
      w_DataStore = map_of [(''ida'', peer_a), (''idb'', peer_b), (''idc'', peer_c)],
      w_DataStoreOrder = [''ida'', ''idb'', ''idc''],
      w_Query = (\<lambda>p req. if peer_ID p = ''ida''
                           then Inr [[CInt 10, CString ''up''], [CInt 20, CString ''down'']]
                           else Inl (Err ''connection refused'')),
      w_GetRowValue = (\<lambda>p ref row j table numPerRow. CString (peer_Name p)),
      w_BuildLocalResponseData = (\<lambda>p res req numPerRow indexes. res),
      w_Sprint = (\<lambda>v. case v of Some (SCell (CString s)) \<Rightarrow> s | _ \<Rightarrow> ''<nil>''),
      w_ToLower = ascii_lower,
      w_Sort = (\<lambda>less rows. Inr rows),
      w_NumberToFloat = sample_n2f\<rparr>"

definition virt_at :: "int \<Rightarrow> Column" where
  "virt_at i = \<lparr>col_Name = ''last_error'', col_Type = StringCol, col_Index = i,
     col_RefIndex = 2, col_Update = OtherUpdate\<rparr>"

section \<open>Well-formed tables and bad requests\<close>

text \<open>The name index of a table points into its column list (an invariant of the catalog),
  the response \<open>BuildResponse\<close> starts from, and three requests that must be refused.\<close>

definition wf_table :: "Table \<Rightarrow> bool" where
  "wf_table table \<longleftrightarrow>
     (\<forall>n i. tbl_ColumnsIndex table n = Some i \<longrightarrow> 0 \<le> i \<and> i < int (length (tbl_Columns table)))"

definition initial_response :: "Request \<Rightarrow> Response" where
  "initial_response req = \<lparr>res_Code = 200, res_Result = NilSlice, res_ResultTotal = 0,
     res_Request = req, res_Error = None, res_Failed = Map.empty, res_Columns = []\<rparr>"

definition bad_column_request :: Request where
  "bad_column_request = plain_request\<lparr>req_Table := ''hosts'', req_Columns := [''name'', ''Bogus'']\<rparr>"

definition bad_sort_request :: Request where
  "bad_sort_request =
     plain_request\<lparr>req_Table := ''hosts'', req_Columns := [''name''], req_Sort := [by_state_asc]\<rparr>"

definition bad_backend_request :: Request where
  "bad_backend_request =
     plain_request\<lparr>req_Table := ''hosts'', req_Columns := [''name''],
       req_Backends := [''ida'', ''idz'']\<rparr>"

section \<open>Three peers, one down, one failing\<close>

text \<open>
  The scenario: the registry holds the peers \<open>pa\<close>, \<open>pb\<close>, \<open>pc\<close> under the ids \<open>a\<close>, \<open>b\<close>,
  \<open>c\<close>; \<open>pb\<close> is down, the others are not; the query to \<open>pa\<close> returns \<open>rowsA\<close>, which
  become \<open>rowsA'\<close> when the virtual columns are spliced in; the query to \<open>pc\<close> returns the
  error \<open>callError\<close>.
\<close>

definition three_peers ::
  "World \<Rightarrow> Table \<Rightarrow> Column list \<Rightarrow> int \<Rightarrow> Request \<Rightarrow> string \<Rightarrow> string \<Rightarrow> string
     \<Rightarrow> Peer \<Rightarrow> Peer \<Rightarrow> Peer \<Rightarrow> row list \<Rightarrow> row list \<Rightarrow> string \<Rightarrow> bool"
where
  "three_peers W table columns numPerRow req a b c pa pb pc rowsA rowsA' callError \<longleftrightarrow>
     w_DataStore W a = Some pa \<and> w_DataStore W b = Some pb \<and> w_DataStore W c = Some pc
     \<and> (peer_Status pa ''PeerStatus'' = Some (SPeerStatus PeerStatusUp)
        \<or> peer_Status pa ''PeerStatus'' = Some (SPeerStatus PeerStatusOther))
     \<and> peer_Status pb ''PeerStatus'' = Some (SPeerStatus PeerStatusDown)
     \<and> (peer_Status pc ''PeerStatus'' = Some (SPeerStatus PeerStatusUp)
        \<or> peer_Status pc ''PeerStatus'' = Some (SPeerStatus PeerStatusOther))
     \<and> w_Query W pa (passthroughRequest req columns) = Inr rowsA
     \<and> insert_virtual_values W pa table numPerRow (virtColumns columns) rowsA = Inr rowsA'
     \<and> w_Query W pc (passthroughRequest req columns) = Inl (Err callError)"

definition log_columns :: "Column list" where
  "log_columns =
     [\<lparr>col_Name = ''time'', col_Type = TimeCol, col_Index = 0, col_RefIndex = 0,
        col_Update = OtherUpdate\<rparr>,
      virt_at 1,
      \<lparr>col_Name = ''message'', col_Type = StringCol, col_Index = 2, col_RefIndex = 0,
        col_Update = OtherUpdate\<rparr>]"

definition log_response :: Response where
  "log_response = plain_response
     (plain_request\<lparr>req_Table := ''log'', req_Columns := [''time'', ''last_error'', ''message'']\<rparr>)
     []"


section \<open>Properties of pagination\<close>

lemmas post_defs = BuildResponsePostProcessing_def paginate_def sort_step_def total_step_def
  offset_step_def limit_step_def stats_step_def

lemma paginate_Request: "paginate srt n2f res = Inr r \<Longrightarrow> res_Request r = res_Request res"
  by (auto simp: paginate_def sort_step_def total_step_def offset_step_def limit_step_def
      split: sum.splits if_splits)

text \<open>
  Where pagination does what the specification says: without sort keys and with
  \<open>ResultTotal\<close> unset, whenever the limit is absent, is at least the row count, or is at
  most the number of rows left after the offset, pagination returns and the result has
  \<open>min (max (N - Offset) 0) Limit\<close> rows (\<open>max (N - Offset) 0\<close> without a limit).
\<close>

lemma pagination_length:
  assumes "req_Sort (res_Request res) = []" "res_ResultTotal res = 0"
    and "req_Limit (res_Request res) \<le> 0 \<or> len (res_Result res) \<le> req_Limit (res_Request res)
         \<or> req_Limit (res_Request res) \<le> len (res_Result res) - max 0 (req_Offset (res_Request res))"
  shows "\<exists>r. paginate srt n2f res = Inr r \<and>
     len (res_Result r) =
       (let n = max (len (res_Result res) - max 0 (req_Offset (res_Request res))) 0
        in if req_Limit (res_Request res) > 0 then min n (req_Limit (res_Request res)) else n)"
  using assms
  by (cases "res_Result res")
     (auto simp: paginate_def sort_step_def total_step_def offset_step_def limit_step_def Let_def
        slice_from_def slice_to_def len_def cap_def split: sum.splits if_splits)

text \<open>
  C1.  The claim: with \<open>N = ResultTotal\<close>, an offset beyond \<open>N\<close> gives the empty result,
  and otherwise the result has \<open>min (max (N - Offset) 0) Limit\<close> rows.  The code compares
  the limit with \<open>ResultTotal\<close>, not with the rows left after the offset: for two rows,
  offset 3 and limit 1 the offset step installs an empty slice of capacity 0 and the limit
  step then slices it to \<open>[0:1]\<close>, which panics instead of returning the empty result.
\<close>

theorem pagination_limit_after_offset_panics:
  "BuildResponsePostProcessing srt n2f
     (plain_response (plain_request\<lparr>req_Offset := 3, req_Limit := 1\<rparr>) [[CInt 1], [CInt 2]])
   = Inl (Panic ''slice bounds out of range'')"
  by (simp add: post_defs plain_request_def plain_response_def slice_to_def len_def cap_def)

text \<open>The same defect with the offset inside the result: five rows, offset 3, limit 4
  leave two rows of capacity two, and the limit step slices them to \<open>[0:4]\<close>.\<close>

lemma pagination_limit_exceeds_rest_panics:
  "BuildResponsePostProcessing srt n2f
     (plain_response (plain_request\<lparr>req_Offset := 3, req_Limit := 4\<rparr>)
        [[CInt 1], [CInt 2], [CInt 3], [CInt 4], [CInt 5]])
   = Inl (Panic ''slice bounds out of range'')"
  by (simp add: post_defs plain_request_def plain_response_def slice_to_def slice_from_def
      len_def cap_def)

section \<open>Properties of the stats reduction\<close>

lemma stats_cell_refines: "st_StatsType s \<noteq> NoStats \<Longrightarrow> stats_cell s = Inr (stats_cell_spec s)"
  by (cases "st_StatsType s") (auto simp: stats_cell_def stats_cell_spec_def)

lemma stats_row_refines:
  "\<forall>s\<in>set ss. st_StatsType s \<noteq> NoStats \<Longrightarrow> stats_row ss = Inr (map stats_cell_spec ss)"
  by (induction ss) (simp_all add: stats_cell_refines)

text \<open>
  Where sorting, offset and limit return: when stats specs are present (each of a kind the
  code handles), then whatever they have left in \<open>r\<close>, post-processing returns \<open>r\<close> with
  the matrix replaced by exactly one row, which has one cell per stats spec: the cell the
  specification describes (\<open>stats_cell_spec\<close>).
\<close>

lemma stats_reduction_one_row:
  assumes "req_Stats (res_Request res) \<noteq> []"
    and "\<forall>s\<in>set (req_Stats (res_Request res)). st_StatsType s \<noteq> NoStats"
    and "paginate srt n2f res = Inr r"
  shows "BuildResponsePostProcessing srt n2f res =
           Inr (r\<lparr>res_Result := Slice [map stats_cell_spec (req_Stats (res_Request res))] []\<rparr>)
         \<and> length (map stats_cell_spec (req_Stats (res_Request res)))
             = length (req_Stats (res_Request res))"
proof -
  have req: "res_Request r = res_Request res"
    using assms(3) by (rule paginate_Request)
  have "stats_step r =
          Inr (r\<lparr>res_Result := Slice [map stats_cell_spec (req_Stats (res_Request res))] []\<rparr>)"
    using assms(1,2) by (simp add: stats_step_def req stats_row_refines)
  then show ?thesis
    using assms(3) by (simp add: BuildResponsePostProcessing_def)
qed

lemma stats_reduction_one_row_example:
  "req_Stats (res_Request stats_sample) \<noteq> []
   \<and> list_all (\<lambda>s. st_StatsType s \<noteq> NoStats) (req_Stats (res_Request stats_sample))
   \<and> paginate (\<lambda>_ rows. Inr rows) (\<lambda>_. 0) stats_sample
       = Inr (stats_sample\<lparr>res_ResultTotal := 2, res_Result := Slice [[CInt 2]] []\<rparr>)
   \<and> BuildResponsePostProcessing (\<lambda>_ rows. Inr rows) (\<lambda>_. 0) stats_sample
       = Inr (stats_sample\<lparr>res_ResultTotal := 2,
                res_Result := Slice [[CFloat 5, CFloat (5/2), CInt 0, CInt 0]] []\<rparr>)"
proof -
  have h1: "req_Stats (res_Request stats_sample) \<noteq> []"
    by (simp add: stats_sample_def plain_response_def plain_request_def)
  have h2: "\<forall>s\<in>set (req_Stats (res_Request stats_sample)). st_StatsType s \<noteq> NoStats"
    by (simp add: stats_sample_def plain_response_def plain_request_def)
  have h3: "paginate (\<lambda>_ rows. Inr rows) (\<lambda>_. 0) stats_sample
       = Inr (stats_sample\<lparr>res_ResultTotal := 2, res_Result := Slice [[CInt 2]] []\<rparr>)"
    by (simp add: stats_sample_def post_defs plain_request_def plain_response_def slice_to_def
        slice_from_def len_def cap_def)
  have e: "map stats_cell_spec (req_Stats (res_Request stats_sample))
             = [CFloat 5, CFloat (5/2), CInt 0, CInt 0]"
    by (simp add: stats_sample_def plain_response_def plain_request_def stats_cell_spec_def)
  show ?thesis
    using h1 h2 h3 stats_reduction_one_row [OF h1 h2 h3] by (simp add: e list_all_iff)
qed

text \<open>
  C2.  The claim: with stats specs present the matrix is replaced by one row of stats
  cells regardless of limit and offset.  The stats block runs after the offset and limit
  steps, and the limit step panics when the limit is smaller than \<open>ResultTotal\<close> but
  larger than what the offset has left: for a stats request on two rows with offset 3 and
  limit 1 post-processing panics before the stats block is reached and no row is produced.
\<close>

theorem stats_reduction_not_reached:
  "BuildResponsePostProcessing srt n2f stats_offset_sample
     = Inl (Panic ''slice bounds out of range'')
   \<and> paginate srt n2f stats_offset_sample = Inl (Panic ''slice bounds out of range'')
   \<and> stats_row (req_Stats (res_Request stats_offset_sample)) = Inr [CFloat 5]"
  by (simp add: post_defs stats_offset_sample_def plain_request_def plain_response_def
      slice_to_def len_def cap_def stats_cell_def)

section \<open>Properties of the comparator\<close>

lemmas sample_defs = sample_columns_def sample_rows_def name_col_def state_col_def
  contacts_col_def by_name_desc_def by_state_asc_def by_contacts_desc_def sorted_response_def
  plain_response_def plain_request_def

lemma Less_keys_equal:
  "list_all (key_equal n2f cols rows i j) ss \<Longrightarrow> Less_keys n2f cols rows i j ss = Inr True"
proof (induction ss)
  case Nil
  show ?case by simp
next
  case (Cons s ss)
  from Cons.prems have k: "key_equal n2f cols rows i j s"
    and r: "list_all (key_equal n2f cols rows i j) ss" by simp_all
  from Cons.IH [OF r] have ih: "Less_keys n2f cols rows i j ss = Inr True" .
  from k show ?case
    by (auto simp: key_equal_def ih split: option.splits sum.splits cell.splits if_splits)
qed




lemma same_string_sym:
  "(case (a, b) of (CString s1, CString s2) \<Rightarrow> s1 = s2 | _ \<Rightarrow> False)
   = (case (b, a) of (CString s1, CString s2) \<Rightarrow> s1 = s2 | _ \<Rightarrow> False)"
  by (cases a; cases b) auto

lemma key_equal_sym: "key_equal n2f cols rows j i = key_equal n2f cols rows i j"
proof (rule ext)
  fix s
  show "key_equal n2f cols rows j i s = key_equal n2f cols rows i j s"
  proof (cases "go_index cols (sf_Index s)")
    case None
    then show ?thesis by (simp add: key_equal_def)
  next
    case (Some c)
    show ?thesis
    proof (cases "cell_at rows i (sf_Index s)")
      case (Inl e)
      then show ?thesis using Some by (simp add: key_equal_def split: sum.splits)
    next
      case a: (Inr a)
      show ?thesis
      proof (cases "cell_at rows j (sf_Index s)")
        case (Inl e)
        then show ?thesis using Some a by (simp add: key_equal_def)
      next
        case (Inr b)
        then show ?thesis using Some a same_string_sym [of a b]
          by (auto simp: key_equal_def)
      qed
    qed
  qed
qed

lemma cell_at_swap:
  assumes "go_index rows i = Some ri" "go_index rows j = Some rj"
  shows "cell_at (rows[nat i := rj, nat j := ri]) i k = cell_at rows j k"
    and "cell_at (rows[nat i := rj, nat j := ri]) j k = cell_at rows i k"
proof -
  from assms have b: "0 \<le> i" "nat i < length rows" "rows ! nat i = ri"
    "0 \<le> j" "nat j < length rows" "rows ! nat j = rj"
    by (auto simp: go_index_def split: if_splits)
  have 1: "go_index (rows[nat i := rj, nat j := ri]) i = Some rj"
    using b by (cases "nat i = nat j") (simp_all add: go_index_def)
  have 2: "go_index (rows[nat i := rj, nat j := ri]) j = Some ri"
    using b by (simp add: go_index_def)
  show "cell_at (rows[nat i := rj, nat j := ri]) i k = cell_at rows j k"
    by (simp add: cell_at_def 1 assms)
  show "cell_at (rows[nat i := rj, nat j := ri]) j k = cell_at rows i k"
    by (simp add: cell_at_def 2 assms)
qed

lemma key_equal_swap:
  assumes "go_index rows i = Some ri" "go_index rows j = Some rj"
  shows "key_equal n2f cols (rows[nat i := rj, nat j := ri]) i j = key_equal n2f cols rows j i"
  by (rule ext) (simp add: key_equal_def cell_at_swap [OF assms])

text \<open>
  C10.  The claim includes every row compared with itself.  With a list-typed sort column
  the comparator does not compare the cells at all and answers by the key's direction: for
  a descending key on a string-list column a row is not \<open>Less\<close> than itself.
\<close>

theorem Less_reflexive_counterexample:
  "Less sample_n2f (sorted_response [by_contacts_desc]) 0 0 = Inr False"
  by (simp add: Less_def sample_defs go_index_def cell_at_def)

text \<open>
  C10, amended.  When at every sort key the cells of rows \<open>i\<close> and \<open>j\<close> compare equal (the
  key's column is numeric and the values are equal, or it is a String column and both
  cells hold the same string), \<open>Less\<close> returns true, in particular for a row compared with
  itself under such keys, so \<open>Less\<close> is not irreflexive.  It returns true in both
  directions, and still does so after \<open>Swap\<close> has exchanged the two rows: the comparator
  calls each of the two rows less than the other in either arrangement, so it does not
  determine their relative order after sorting.
\<close>

theorem Less_equal_rows_true:
  assumes "list_all (key_equal n2f (res_Columns res) (elems (res_Result res)) i j)
             (req_Sort (res_Request res))"
  shows "Less n2f res i j = Inr True \<and> Less n2f res j i = Inr True
       \<and> (\<forall>res'. Swap res i j = Inr res' \<longrightarrow>
            Less n2f res' i j = Inr True \<and> Less n2f res' j i = Inr True)
       \<and> (i = j \<longrightarrow> Less n2f res i i = Inr True)"
proof -
  let ?cols = "res_Columns res" and ?rows = "elems (res_Result res)"
    and ?keys = "req_Sort (res_Request res)"
  have ij: "list_all (key_equal n2f ?cols ?rows i j) ?keys" by (rule assms)
  then have ji: "list_all (key_equal n2f ?cols ?rows j i) ?keys"
    unfolding key_equal_sym [of n2f ?cols ?rows j i] .
  have 1: "Less n2f res i j = Inr True" using ij by (simp add: Less_def Less_keys_equal)
  have 2: "Less n2f res j i = Inr True" using ji by (simp add: Less_def Less_keys_equal)
  have 3: "Less n2f res' i j = Inr True \<and> Less n2f res' j i = Inr True"
    if "Swap res i j = Inr res'" for res'
  proof -
    from that obtain ri rj where g: "go_index ?rows i = Some ri" "go_index ?rows j = Some rj"
      and r: "res' = res\<lparr>res_Result := Slice (?rows[nat i := rj, nat j := ri]) (spare (res_Result res))\<rparr>"
      by (auto simp: Swap_def split: option.splits)
    have a: "list_all (key_equal n2f ?cols (?rows[nat i := rj, nat j := ri]) i j) ?keys"
      using ji unfolding key_equal_swap [OF g] .
    then have b: "list_all (key_equal n2f ?cols (?rows[nat i := rj, nat j := ri]) j i) ?keys"
      unfolding key_equal_sym [of n2f ?cols "?rows[nat i := rj, nat j := ri]" j i] .
    from a b show ?thesis by (simp add: r Less_def Less_keys_equal)
  qed
  from 1 2 3 show ?thesis by blast
qed

theorem Less_equal_rows_true_witness:
  "list_all (key_equal sample_n2f (res_Columns (sorted_response [by_name_desc]))
        (elems (res_Result (sorted_response [by_name_desc]))) 0 1)
     (req_Sort (res_Request (sorted_response [by_name_desc])))
   \<and> Less sample_n2f (sorted_response [by_name_desc]) 0 1 = Inr True
   \<and> Less sample_n2f (sorted_response [by_name_desc]) 1 0 = Inr True
   \<and> (\<exists>res'. Swap (sorted_response [by_name_desc]) 0 1 = Inr res'
          \<and> Less sample_n2f res' 0 1 = Inr True \<and> Less sample_n2f res' 1 0 = Inr True)
   \<and> list_all (key_equal sample_n2f (res_Columns (sorted_response [by_name_desc, by_state_asc]))
        (elems (res_Result (sorted_response [by_name_desc, by_state_asc]))) 1 1)
     (req_Sort (res_Request (sorted_response [by_name_desc, by_state_asc])))
   \<and> Less sample_n2f (sorted_response [by_name_desc, by_state_asc]) 1 1 = Inr True"
proof -
  have h1: "list_all (key_equal sample_n2f (res_Columns (sorted_response [by_name_desc]))
        (elems (res_Result (sorted_response [by_name_desc]))) 0 1)
     (req_Sort (res_Request (sorted_response [by_name_desc])))"
    by (simp add: sample_defs key_equal_def go_index_def cell_at_def)
  have h2: "list_all (key_equal sample_n2f (res_Columns (sorted_response [by_name_desc, by_state_asc]))
        (elems (res_Result (sorted_response [by_name_desc, by_state_asc]))) 1 1)
     (req_Sort (res_Request (sorted_response [by_name_desc, by_state_asc])))"
    by (simp add: sample_defs key_equal_def go_index_def cell_at_def)
  have s: "\<exists>res'. Swap (sorted_response [by_name_desc]) 0 1 = Inr res'"
    by (simp add: Swap_def sample_defs go_index_def)
  show ?thesis
    using h1 h2 s Less_equal_rows_true [OF h1] Less_equal_rows_true [OF h2] by auto
qed

section \<open>Properties of the resolver\<close>

lemma fold_default:
  "fold (\<lambda>col cols. if P col then cols @ [f col] else cols) xs acc = acc @ map f (filter P xs)"
  by (induction xs arbitrary: acc) simp_all

lemma expand_columns_empty:
  "req_Columns req = [] \<Longrightarrow> req_Stats req = [] \<Longrightarrow>
   expand_columns req table = req\<lparr>req_SendColumnsHeader := True,
      req_Columns := map col_Name (filter default_column (tbl_Columns table))\<rparr>"
  by (simp add: expand_columns_def fold_default)

lemma BuildResponseIndexes_Request:
  "req_Columns (fst (BuildResponseIndexes lower req table)) = req_Columns (expand_columns req table)
   \<and> req_SendColumnsHeader (fst (BuildResponseIndexes lower req table))
       = req_SendColumnsHeader (expand_columns req table)"
  by (simp add: BuildResponseIndexes_def Let_def split: sum.splits prod.splits option.splits)

lemma resolve_columns_names:
  "resolve_columns lower tname table j cs (ix, cols, m) = Inr (ix', cols', m') \<Longrightarrow>
   map col_Name cols' = map col_Name cols @ map lower cs"
proof (induction cs arbitrary: j ix cols m)
  case Nil
  then show ?case by simp
next
  case (Cons c cs)
  then show ?case
    by (auto simp: Let_def split: option.splits if_splits)
qed

text \<open>
  C7.  For a request whose Columns and Stats are both empty, the resolver leaves in the
  request exactly the names of the table's columns with update policy Static, Dynamic or
  Virtual-Update or of Type Virtual, in schema order, and sets the column-header flag;
  when it succeeds, the resolved output columns are these columns (names lowercased).
\<close>

theorem resolver_default_columns:
  assumes "req_Columns req = []" and "req_Stats req = []"
  shows "req_Columns (fst (BuildResponseIndexes lower req table))
           = map col_Name (filter default_column (tbl_Columns table))
       \<and> req_SendColumnsHeader (fst (BuildResponseIndexes lower req table))
       \<and> (\<forall>indexes columns.
            snd (BuildResponseIndexes lower req table) = Inr (indexes, columns) \<longrightarrow>
            map col_Name columns
              = map lower (map col_Name (filter default_column (tbl_Columns table))))"
proof -
  have e: "expand_columns req table = req\<lparr>req_SendColumnsHeader := True,
      req_Columns := map col_Name (filter default_column (tbl_Columns table))\<rparr>"
    using assms by (rule expand_columns_empty)
  have 1: "req_Columns (fst (BuildResponseIndexes lower req table))
           = map col_Name (filter default_column (tbl_Columns table))"
    using BuildResponseIndexes_Request [of lower req table] by (simp add: e)
  have 2: "req_SendColumnsHeader (fst (BuildResponseIndexes lower req table))"
    using BuildResponseIndexes_Request [of lower req table] by (simp add: e)
  have 3: "map col_Name columns
             = map lower (map col_Name (filter default_column (tbl_Columns table)))"
    if "snd (BuildResponseIndexes lower req table) = Inr (indexes, columns)" for indexes columns
    using that resolve_columns_names [of lower "req_Table req" table 0
        "map col_Name (filter default_column (tbl_Columns table))" "[]" "[]" Map.empty]
    by (auto simp: BuildResponseIndexes_def e Let_def split: sum.splits prod.splits option.splits)
  show ?thesis using 1 2 3 by blast
qed

theorem resolver_default_columns_witness:
  "req_Columns plain_request = [] \<and> req_Stats plain_request = []
   \<and> req_Columns (fst (BuildResponseIndexes ascii_lower plain_request hosts_table))
       = [''name'', ''state'', ''last_error'']
   \<and> req_SendColumnsHeader (fst (BuildResponseIndexes ascii_lower plain_request hosts_table))
   \<and> snd (BuildResponseIndexes ascii_lower plain_request hosts_table)
       = Inr ([0, 1, -9],
              [name_col\<lparr>col_Update := OtherUpdate\<rparr>, state_col\<lparr>col_Update := OtherUpdate\<rparr>,
               \<lparr>col_Name = ''last_error'', col_Type = StringCol, col_Index = 2,
                  col_RefIndex = 3, col_Update = OtherUpdate\<rparr>])
   \<and> map col_Name [name_col\<lparr>col_Update := OtherUpdate\<rparr>, state_col\<lparr>col_Update := OtherUpdate\<rparr>,
               \<lparr>col_Name = ''last_error'', col_Type = StringCol, col_Index = 2,
                  col_RefIndex = 3, col_Update = OtherUpdate\<rparr>]
       = map ascii_lower [''name'', ''state'', ''last_error'']"
proof -
  have h1: "req_Columns plain_request = []" and h2: "req_Stats plain_request = []"
    by (simp_all add: plain_request_def)
  have f: "map col_Name (filter default_column (tbl_Columns hosts_table))
             = [''name'', ''state'', ''last_error'']"
    by (simp add: hosts_table_def sample_defs default_column_def)
  have s: "snd (BuildResponseIndexes ascii_lower plain_request hosts_table)
       = Inr ([0, 1, -9],
              [name_col\<lparr>col_Update := OtherUpdate\<rparr>, state_col\<lparr>col_Update := OtherUpdate\<rparr>,
               \<lparr>col_Name = ''last_error'', col_Type = StringCol, col_Index = 2,
                  col_RefIndex = 3, col_Update = OtherUpdate\<rparr>])"
    by (simp add: BuildResponseIndexes_def expand_columns_def hosts_table_def sample_defs
        default_column_def ascii_lower_def go_index_def virt_key_def VirtKeyMap_def Let_def)
  show ?thesis
    using h1 h2 s resolver_default_columns [OF h1 h2, of ascii_lower hosts_table]
    by (simp add: f)
qed

section \<open>Properties of the wire encoder\<close>

lemma show_int_43: "show_int 43 = ''43''"
  by (simp add: show_int_def digits.simps)

lemma show_int_200: "show_int 200 = ''200''"
  by (simp add: show_int_def digits.simps)

lemma status_line_200_43: "status_line 200 43 = ''200          43'' @ nl"
  by (simp add: status_line_def show_int_43 show_int_200 pad_left_def eval_nat_numeral)

lemma send_header_fields:
  "res_Request (send_header res) = res_Request res \<and> res_Code (send_header res) = res_Code res"
  by (simp add: send_header_def)

text \<open>
  C8.  When the body \<open>body\<close> can be encoded, \<open>Send\<close> writes, with fixed framing, the status
  line (the code, a space, the length right-justified in 11 columns, a newline), where the
  length is the body's byte length plus one, then the body, then a newline; without fixed
  framing it writes the body and the newline.  Code 200 and a 42-byte body give the status
  line \<open>200          43\<close>.  When a row cannot be encoded nothing is written.
\<close>

theorem Send_framing:
  "(\<forall>body. encode_body mr mf (send_header res) = Inr body \<longrightarrow>
      Send mr mf res =
        (send_header res, Inr (int (length body) + 1),
         (if req_ResponseFixed16 (res_Request res)
          then [show_int (res_Code res) @ '' ''
                @ pad_left 11 (show_int (int (length body) + 1)) @ nl]
          else []) @ [body, nl])
      \<and> length (pad_left 11 (show_int (int (length body) + 1)))
          = max 11 (length (show_int (int (length body) + 1)))
      \<and> (res_Code res = 200 \<longrightarrow> length body = 42 \<longrightarrow> req_ResponseFixed16 (res_Request res) \<longrightarrow>
           snd (snd (Send mr mf res)) = [''200          43'' @ nl, body, nl]))
   \<and> (\<forall>e. encode_body mr mf (send_header res) = Inl e \<longrightarrow>
        Send mr mf res = (send_header res, Inl e, []))"
proof (intro conjI allI impI)
  fix body
  assume b: "encode_body mr mf (send_header res) = Inr body"
  show "Send mr mf res =
        (send_header res, Inr (int (length body) + 1),
         (if req_ResponseFixed16 (res_Request res)
          then [show_int (res_Code res) @ '' ''
                @ pad_left 11 (show_int (int (length body) + 1)) @ nl]
          else []) @ [body, nl])"
    using b by (simp add: Send_def Let_def send_header_fields status_line_def)
  show "length (pad_left 11 (show_int (int (length body) + 1)))
          = max 11 (length (show_int (int (length body) + 1)))"
    by (simp add: pad_left_def)
  show "snd (snd (Send mr mf res)) = [''200          43'' @ nl, body, nl]"
    if "res_Code res = 200" "length body = 42" "req_ResponseFixed16 (res_Request res)"
    using b that status_line_200_43 by (simp add: Send_def Let_def send_header_fields)
next
  fix e
  assume "encode_body mr mf (send_header res) = Inl e"
  then show "Send mr mf res = (send_header res, Inl e, [])"
    by (simp add: Send_def Let_def)
qed

theorem Send_framing_witness:
  "encode_body failing_marshal (\<lambda>m. ''{}'') (send_header error_response)
     = Inr ''bad request: table hosts has no column nam''
   \<and> res_Code error_response = 200
   \<and> length ''bad request: table hosts has no column nam'' = 42
   \<and> req_ResponseFixed16 (res_Request error_response)
   \<and> snd (snd (Send failing_marshal (\<lambda>m. ''{}'') error_response))
       = [''200          43'' @ nl, ''bad request: table hosts has no column nam'', nl]
   \<and> encode_body failing_marshal (\<lambda>m. ''{}'') (send_header header_sample)
       = Inl (Err ''json: unsupported value'')
   \<and> snd (Send failing_marshal (\<lambda>m. ''{}'') header_sample) = (Inl (Err ''json: unsupported value''), [])"
proof -
  have h1: "encode_body failing_marshal (\<lambda>m. ''{}'') (send_header error_response)
     = Inr ''bad request: table hosts has no column nam''"
    by (simp add: encode_body_def send_header_def error_response_def plain_response_def
        plain_request_def)
  have h2: "res_Code error_response = 200"
    and h3: "req_ResponseFixed16 (res_Request error_response)"
    by (simp_all add: error_response_def plain_response_def plain_request_def)
  have h4: "encode_body failing_marshal (\<lambda>m. ''{}'') (send_header header_sample)
       = Inl (Err ''json: unsupported value'')"
    by (simp add: encode_body_def send_header_def header_sample_def plain_response_def
        plain_request_def append_slice_def failing_marshal_def Let_def)
  show ?thesis
    using h1 h2 h3 h4 Send_framing [of failing_marshal "\<lambda>m. ''{}''" error_response]
      Send_framing [of failing_marshal "\<lambda>m. ''{}''" header_sample]
    by (simp add: show_int_43 show_int_200 pad_left_def eval_nat_numeral)
qed

lemma fill_cols_shape:
  "i + length vs \<le> length cols \<Longrightarrow>
   fill_cols i vs cols = take i cols @ map CString vs @ drop (i + length vs) cols"
proof (induction vs arbitrary: i cols)
  case Nil
  then show ?case by simp
next
  case (Cons v vs)
  have "fill_cols (Suc i) vs (cols[i := CString v])
        = take (Suc i) (cols[i := CString v]) @ map CString vs
          @ drop (Suc i + length vs) (cols[i := CString v])"
    using Cons.prems by (intro Cons.IH) simp
  moreover have "take (Suc i) (cols[i := CString v]) = take i cols @ [CString v]"
    using Cons.prems by (simp add: take_Suc_conv_app_nth)
  ultimately show ?case by simp
qed

text \<open>The header row in general: the requested column names, then one \<open>nil\<close> cell for
  every stats spec.\<close>

lemma header_row_shape:
  "header_row req = map CString (req_Columns req) @ replicate (length (req_Stats req)) CNil"
  by (simp add: header_row_def fill_cols_shape)

lemma send_header_prepends:
  "req_SendColumnsHeader (res_Request res) \<Longrightarrow>
   elems (res_Result (send_header res)) = header_row (res_Request res) # elems (res_Result res)"
  by (simp add: send_header_def append_slice_def)

text \<open>
  C9.  The claim: the header row holds the column names and the stat labels.  \<open>Send\<close>
  reserves one cell per stats spec in the header row but only the column names are
  written into it: for a request with the column \<open>name\<close> and one stats spec the header row
  is the name followed by a \<open>nil\<close> cell, not by a label.
\<close>

theorem Send_header_stats_cell_is_nil:
  "elems (res_Result (fst (Send mr mf header_sample)))
     = [[CString ''name'', CNil], [CString ''web'', CFloat 5]]"
  by (simp add: Send_def Let_def send_header_def header_sample_def plain_response_def
      plain_request_def header_row_def append_slice_def split: sum.splits)

section \<open>Properties of the virtual column splice\<close>

lemma insert_virt_shape:
  assumes "0 \<le> col_Index c" and "col_Index c \<le> int (length row)"
  shows "insert_virt gv row c =
           Inr (take (nat (col_Index c)) row
                @ [gv (col_RefIndex c)
                     (take (nat (col_Index c)) row
                      @ [if col_Index c < int (length row) then row ! nat (col_Index c) else CInt 0]
                      @ drop (nat (col_Index c)) row)]
                @ drop (nat (col_Index c)) row)"
proof -
  define i where "i = nat (col_Index c)"
  have i: "i \<le> length row" "col_Index c = int i" using assms by (simp_all add: i_def)
  have r2: "take (i + 1) (row @ [CInt 0]) @ take (length (row @ [CInt 0]) - (i + 1)) (drop i (row @ [CInt 0]))
      = take i row @ [if i < length row then row ! i else CInt 0] @ drop i row"
  proof (cases "i < length row")
    case True
    then show ?thesis by (simp add: take_Suc_conv_app_nth)
  next
    case False
    with i have "i = length row" by simp
    then show ?thesis by simp
  qed
  have upd: "(take i row @ [x] @ drop i row)[i := v] = take i row @ [v] @ drop i row" for x v
    using i by (simp add: list_update_append min_def)
  have g: "\<not> (col_Index c < 0 \<or> int (length (row @ [CInt 0])) < col_Index c + 1)"
    using i by simp
  show ?thesis
    unfolding insert_virt_def Let_def if_not_P [OF g] i_def [symmetric] r2 upd
    using i by simp
qed

lemma insert_virt_Inr:
  "insert_virt gv row c = Inr row' \<Longrightarrow> 0 \<le> col_Index c \<and> col_Index c \<le> int (length row)"
  by (auto simp: insert_virt_def Let_def split: if_splits)

lemma insert_virt_props:
  assumes "insert_virt gv row c = Inr row'"
  shows "length row' = Suc (length row)" and "subseq row row'"
    and "take (nat (col_Index c)) row' = take (nat (col_Index c)) row"
    and "\<exists>r. go_index row' (col_Index c) = Some (gv (col_RefIndex c) r)"
proof -
  from insert_virt_Inr[OF assms] have b: "0 \<le> col_Index c" "col_Index c \<le> int (length row)" by simp_all
  note s = insert_virt_shape[OF b, of gv]
  from s assms have e: "row' = take (nat (col_Index c)) row
                @ [gv (col_RefIndex c)
                     (take (nat (col_Index c)) row
                      @ [if col_Index c < int (length row) then row ! nat (col_Index c) else CInt 0]
                      @ drop (nat (col_Index c)) row)]
                @ drop (nat (col_Index c)) row" by simp
  show "length row' = Suc (length row)" using b by (subst e) simp
  have "subseq (take (nat (col_Index c)) row @ drop (nat (col_Index c)) row) row'"
    unfolding e subseq_append' by (rule subseq_drop_many) simp
  then show "subseq row row'" by simp
  show "take (nat (col_Index c)) row' = take (nat (col_Index c)) row"
    using b by (subst e) simp
  show "\<exists>r. go_index row' (col_Index c) = Some (gv (col_RefIndex c) r)"
    using b by (subst e) (auto simp: go_index_def nth_append)
qed

lemma splice_virt_length_subseq:
  "splice_virt gv cols row = Inr row' \<Longrightarrow>
   length row' = length row + length cols \<and> subseq row row'"
proof (induction cols arbitrary: row)
  case Nil
  then show ?case by simp
next
  case (Cons c cols)
  from Cons.prems obtain r1 where 1: "insert_virt gv row c = Inr r1"
    and 2: "splice_virt gv cols r1 = Inr row'"
    by (auto split: sum.splits)
  from insert_virt_props(1,2)[OF 1] Cons.IH[OF 2] show ?case
    by (auto intro: subseq_order.trans)
qed

lemma splice_virt_prefix:
  "splice_virt gv cols row = Inr row' \<Longrightarrow> \<forall>c\<in>set cols. int k \<le> col_Index c \<Longrightarrow>
   take k row' = take k row"
proof (induction cols arbitrary: row)
  case Nil
  then show ?case by simp
next
  case (Cons c cols)
  from Cons.prems obtain r1 where 1: "insert_virt gv row c = Inr r1"
    and 2: "splice_virt gv cols r1 = Inr row'"
    by (auto split: sum.splits)
  have k: "k \<le> nat (col_Index c)" using Cons.prems(2) by (simp add: le_nat_iff)
  have "take k row' = take k r1" using Cons.IH[OF 2] Cons.prems(2) by simp
  also have "take k r1 = take k (take (nat (col_Index c)) r1)" using k by (simp add: min_def)
  also have "\<dots> = take k (take (nat (col_Index c)) row)" using insert_virt_props(3)[OF 1] by simp
  also have "\<dots> = take k row" using k by (simp add: min_def)
  finally show ?case .
qed

lemma go_index_take:
  "go_index xs i = Some v \<Longrightarrow> take (Suc (nat i)) ys = take (Suc (nat i)) xs \<Longrightarrow> go_index ys i = Some v"
proof -
  assume a: "go_index xs i = Some v" and t: "take (Suc (nat i)) ys = take (Suc (nat i)) xs"
  from a have b: "0 \<le> i" "nat i < length xs" "xs ! nat i = v" by (auto simp: go_index_def split: if_splits)
  have "length (take (Suc (nat i)) ys) = Suc (nat i)" using t b by simp
  then have ly: "nat i < length ys" by simp
  have "ys ! nat i = take (Suc (nat i)) ys ! nat i" by simp
  also have "\<dots> = xs ! nat i" using t by simp
  finally show ?thesis using b ly by (simp add: go_index_def)
qed

lemma splice_virt_positions:
  "splice_virt gv cols row = Inr row' \<Longrightarrow> sorted_wrt (<) (map col_Index cols) \<Longrightarrow>
   \<forall>c\<in>set cols. \<exists>r. go_index row' (col_Index c) = Some (gv (col_RefIndex c) r)"
proof (induction cols arbitrary: row)
  case Nil
  then show ?case by simp
next
  case (Cons c cols)
  from Cons.prems obtain r1 where 1: "insert_virt gv row c = Inr r1"
    and 2: "splice_virt gv cols r1 = Inr row'"
    by (auto split: sum.splits)
  from Cons.prems(2) have gt: "\<forall>d\<in>set cols. col_Index c < col_Index d"
    and srt: "sorted_wrt (<) (map col_Index cols)" by auto
  from insert_virt_props(4)[OF 1] obtain r where r: "go_index r1 (col_Index c) = Some (gv (col_RefIndex c) r)" by blast
  from insert_virt_Inr[OF 1] have nn: "0 \<le> col_Index c" by simp
  have "\<forall>d\<in>set cols. int (Suc (nat (col_Index c))) \<le> col_Index d" using gt nn by auto
  from splice_virt_prefix[OF 2 this] have "take (Suc (nat (col_Index c))) row' = take (Suc (nat (col_Index c))) r1" .
  from go_index_take[OF r this] have "go_index row' (col_Index c) = Some (gv (col_RefIndex c) r)" .
  with Cons.IH[OF 2 srt] show ?case by auto
qed

lemma splice_virt_total:
  "\<forall>k<length cols. 0 \<le> col_Index (cols ! k) \<and> col_Index (cols ! k) \<le> int (length row + k) \<Longrightarrow>
   \<exists>row'. splice_virt gv cols row = Inr row'"
proof (induction cols arbitrary: row)
  case Nil
  then show ?case by simp
next
  case (Cons c cols)
  from Cons.prems have b: "0 \<le> col_Index c" "col_Index c \<le> int (length row)" by auto
  from insert_virt_shape[OF b, of gv] obtain r1 where 1: "insert_virt gv row c = Inr r1" by blast
  have l: "length r1 = Suc (length row)" using insert_virt_props(1)[OF 1] .
  have "\<forall>k<length cols. 0 \<le> col_Index (cols ! k) \<and> col_Index (cols ! k) \<le> int (length r1 + k)"
  proof (intro allI impI)
    fix k assume "k < length cols"
    then have "Suc k < length (c # cols)" by simp
    from Cons.prems[rule_format, OF this] show "0 \<le> col_Index (cols ! k) \<and> col_Index (cols ! k) \<le> int (length r1 + k)"
      by (simp add: l)
  qed
  from Cons.IH[OF this] 1 show ?case by simp
qed

lemma splice_rows_rows:
  "splice_rows gvj cols j rows = Inr rows' \<Longrightarrow>
   length rows' = length rows
   \<and> (\<forall>k<length rows. length (rows' ! k) = length (rows ! k) + length cols
                        \<and> subseq (rows ! k) (rows' ! k))"
proof (induction rows arbitrary: j rows')
  case Nil
  then show ?case by simp
next
  case (Cons r rows)
  from Cons.prems obtain r' rs' where 1: "splice_virt (gvj j) cols r = Inr r'"
    and 2: "splice_rows gvj cols (j + 1) rows = Inr rs'" and 3: "rows' = r' # rs'"
    by (auto split: sum.splits)
  from splice_virt_length_subseq [OF 1] Cons.IH [OF 2] 3 show ?case
    by (auto simp: nth_Cons split: nat.splits)
qed

text \<open>
  C6.  Splicing one virtual column whose output position \<open>i\<close> lies within the row puts the
  resolved value at position \<open>i\<close> and moves the cells from \<open>i\<close> on one place to the right;
  \<open>[r0, r1]\<close> with a virtual column at position 1 becomes \<open>[r0, value, r1]\<close>.  Whenever the
  splice of a list of virtual columns returns, the row has grown by one cell per virtual
  column, the old cells are still there in their order, and (the positions being
  increasing) every virtual column's value sits at its output position; the same holds for
  every row a peer returned.  The splice returns whenever the \<open>k\<close>-th virtual column's
  position is at most the length of the row plus \<open>k\<close>.
\<close>

theorem virtual_column_splice:
  "(0 \<le> col_Index c \<and> col_Index c \<le> int (length row) \<longrightarrow>
      insert_virt gv row c =
        Inr (take (nat (col_Index c)) row
             @ [gv (col_RefIndex c)
                  (take (nat (col_Index c)) row
                   @ [if col_Index c < int (length row) then row ! nat (col_Index c) else CInt 0]
                   @ drop (nat (col_Index c)) row)]
             @ drop (nat (col_Index c)) row))
   \<and> (col_Index c = 1 \<longrightarrow>
        splice_virt gv [c] [r0, r1] = Inr [r0, gv (col_RefIndex c) [r0, r1, r1], r1])
   \<and> (\<forall>row'. splice_virt gv cols row = Inr row' \<longrightarrow>
        length row' = length row + length cols \<and> subseq row row'
        \<and> (sorted_wrt (<) (map col_Index cols) \<longrightarrow>
             (\<forall>d\<in>set cols. \<exists>r. go_index row' (col_Index d) = Some (gv (col_RefIndex d) r))))
   \<and> ((\<forall>k<length cols. 0 \<le> col_Index (cols ! k)
                         \<and> col_Index (cols ! k) \<le> int (length row + k)) \<longrightarrow>
        (\<exists>row'. splice_virt gv cols row = Inr row'))
   \<and> (\<forall>rows'. insert_virtual_values W p table n cols rows = Inr rows' \<longrightarrow>
        length rows' = length rows
        \<and> (\<forall>k<length rows. length (rows' ! k) = length (rows ! k) + length cols
                             \<and> subseq (rows ! k) (rows' ! k)))"
proof (intro conjI)
  show "0 \<le> col_Index c \<and> col_Index c \<le> int (length row) \<longrightarrow>
      insert_virt gv row c =
        Inr (take (nat (col_Index c)) row
             @ [gv (col_RefIndex c)
                  (take (nat (col_Index c)) row
                   @ [if col_Index c < int (length row) then row ! nat (col_Index c) else CInt 0]
                   @ drop (nat (col_Index c)) row)]
             @ drop (nat (col_Index c)) row)"
    using insert_virt_shape [of c row gv] by blast
  show "col_Index c = 1 \<longrightarrow>
        splice_virt gv [c] [r0, r1] = Inr [r0, gv (col_RefIndex c) [r0, r1, r1], r1]"
    by (simp add: insert_virt_def Let_def)
  show "\<forall>row'. splice_virt gv cols row = Inr row' \<longrightarrow>
        length row' = length row + length cols \<and> subseq row row'
        \<and> (sorted_wrt (<) (map col_Index cols) \<longrightarrow>
             (\<forall>d\<in>set cols. \<exists>r. go_index row' (col_Index d) = Some (gv (col_RefIndex d) r)))"
    using splice_virt_length_subseq [of gv cols row] splice_virt_positions [of gv cols row]
    by blast
  show "(\<forall>k<length cols. 0 \<le> col_Index (cols ! k)
                         \<and> col_Index (cols ! k) \<le> int (length row + k)) \<longrightarrow>
        (\<exists>row'. splice_virt gv cols row = Inr row')"
    using splice_virt_total [of cols row gv] by blast
  show "\<forall>rows'. insert_virtual_values W p table n cols rows = Inr rows' \<longrightarrow>
        length rows' = length rows
        \<and> (\<forall>k<length rows. length (rows' ! k) = length (rows ! k) + length cols
                             \<and> subseq (rows ! k) (rows' ! k))"
  proof (intro allI impI)
    fix rows'
    assume v: "insert_virtual_values W p table n cols rows = Inr rows'"
    show "length rows' = length rows
        \<and> (\<forall>k<length rows. length (rows' ! k) = length (rows ! k) + length cols
                             \<and> subseq (rows ! k) (rows' ! k))"
    proof (cases "length cols > 0")
      case True
      with v show ?thesis
        by (simp add: insert_virtual_values_def splice_rows_rows)
    next
      case False
      with v show ?thesis
        by (simp add: insert_virtual_values_def)
    qed
  qed
qed

theorem virtual_column_splice_witness:
  "0 \<le> col_Index (virt_at 1) \<and> col_Index (virt_at 1) \<le> int (length [CInt 10, CInt 20])
   \<and> insert_virt (\<lambda>ref row. CString ''A'') [CInt 10, CInt 20] (virt_at 1)
       = Inr [CInt 10, CString ''A'', CInt 20]
   \<and> splice_virt (\<lambda>ref row. CString ''A'') [virt_at 1] [CInt 10, CInt 20]
       = Inr [CInt 10, CString ''A'', CInt 20]
   \<and> splice_virt (\<lambda>ref row. CString ''A'') [virt_at 0, virt_at 2] [CInt 10, CInt 20]
       = Inr [CString ''A'', CInt 10, CString ''A'', CInt 20]
   \<and> length [CString ''A'', CInt 10, CString ''A'', CInt 20]
       = length [CInt 10, CInt 20] + length [virt_at 0, virt_at 2]
   \<and> subseq [CInt 10, CInt 20] [CString ''A'', CInt 10, CString ''A'', CInt 20]
   \<and> sorted_wrt (<) (map col_Index [virt_at 0, virt_at 2])
   \<and> insert_virtual_values sample_world peer_a log_table 3 [virt_at 0, virt_at 2]
        [[CInt 10, CInt 20]]
       = Inr [[CString ''A'', CInt 10, CString ''A'', CInt 20]]"
proof -
  have b: "0 \<le> col_Index (virt_at 1) \<and> col_Index (virt_at 1) \<le> int (length [CInt 10, CInt 20])"
    and i1: "col_Index (virt_at 1) = 1"
    by (simp_all add: virt_at_def)
  have s: "splice_virt (\<lambda>ref row. CString ''A'') [virt_at 0, virt_at 2] [CInt 10, CInt 20]
       = Inr [CString ''A'', CInt 10, CString ''A'', CInt 20]"
    by (simp add: insert_virt_def Let_def virt_at_def)
  have v: "insert_virtual_values sample_world peer_a log_table 3 [virt_at 0, virt_at 2]
        [[CInt 10, CInt 20]]
       = Inr [[CString ''A'', CInt 10, CString ''A'', CInt 20]]"
    by (simp add: insert_virtual_values_def insert_virt_def Let_def virt_at_def
        sample_world_def peer_a_def)
  have o: "sorted_wrt (<) (map col_Index [virt_at 0, virt_at 2])"
    by (simp add: virt_at_def)
  note t1 = virtual_column_splice [of "virt_at 1" "[CInt 10, CInt 20]"
      "\<lambda>ref row. CString ''A''" "CInt 10" "CInt 20" "[virt_at 0, virt_at 2]"
      sample_world peer_a log_table 3 "[[CInt 10, CInt 20]]"]
  show ?thesis
    using b i1 s v o t1 by (simp add: virt_at_def)
qed

section \<open>Properties of request validation\<close>

lemma resolve_columns_unknown:
  assumes "wf_table table"
  shows "\<exists>c\<in>set cs. tbl_ColumnsIndex table (lower c) = None \<Longrightarrow>
     \<exists>c\<in>set cs. tbl_ColumnsIndex table (lower c) = None \<and>
       resolve_columns lower tname table j cs acc
         = Inl (Err (''bad request: table '' @ tname @ '' has no column '' @ lower c))"
proof (induction cs arbitrary: j acc)
  case Nil
  then show ?case by simp
next
  case (Cons c cs)
  obtain ix cols m where acc: "acc = (ix, cols, m)" by (cases acc) auto
  show ?case
  proof (cases "tbl_ColumnsIndex table (lower c)")
    case None
    then show ?thesis by (auto simp: acc Let_def)
  next
    case (Some i)
    with assms obtain tc where tc: "go_index (tbl_Columns table) i = Some tc"
      by (auto simp: wf_table_def go_index_def)
    from Some Cons.prems have "\<exists>c\<in>set cs. tbl_ColumnsIndex table (lower c) = None" by auto
    from Cons.IH[OF this] Some tc show ?thesis
      by (auto simp: acc Let_def)
  qed
qed

lemma resolve_columns_known:
  assumes "wf_table table"
  shows "\<forall>c\<in>set cs. tbl_ColumnsIndex table (lower c) \<noteq> None \<Longrightarrow>
     \<exists>ix' cols' m'. resolve_columns lower tname table j cs (ix, cols, m) = Inr (ix', cols', m')
        \<and> dom m' = dom m \<union> lower ` set cs"
proof (induction cs arbitrary: j ix cols m)
  case Nil
  then show ?case by simp
next
  case (Cons c cs)
  from Cons.prems obtain i where i: "tbl_ColumnsIndex table (lower c) = Some i" by auto
  with assms obtain tc where tc: "go_index (tbl_Columns table) i = Some tc"
    by (auto simp: wf_table_def go_index_def)
  from Cons.prems have r: "\<forall>c\<in>set cs. tbl_ColumnsIndex table (lower c) \<noteq> None" by simp
  obtain ix1 cols1 where step:
    "resolve_columns lower tname table j (c # cs) (ix, cols, m)
       = resolve_columns lower tname table (j + 1) cs (ix1, cols1, m(lower c \<mapsto> j))"
    using i tc by (cases "col_Type tc = VirtCol") (simp_all add: Let_def)
  from Cons.IH [OF r] obtain ix' cols' m' where
    "resolve_columns lower tname table (j + 1) cs (ix1, cols1, m(lower c \<mapsto> j)) = Inr (ix', cols', m')"
    and "dom m' = dom (m(lower c \<mapsto> j)) \<union> lower ` set cs"
    by blast
  then have "resolve_columns lower tname table j (c # cs) (ix, cols, m) = Inr (ix', cols', m')"
    and "dom m' = dom m \<union> lower ` set (c # cs)"
    by (simp_all only: step) auto
  then show ?case by blast
qed

lemma check_sort_bad:
  "\<exists>s\<in>set ss. tbl_ColumnsIndex table (sf_Name s) = None \<or> rmap (sf_Name s) = None \<Longrightarrow>
   \<exists>s\<in>set ss.
     (tbl_ColumnsIndex table (sf_Name s) = None \<and>
      snd (check_sort tname table rmap ss)
        = Some (Err (''bad request: table '' @ tname @ '' has no column '' @ sf_Name s @ '' to sort'')))
   \<or> (rmap (sf_Name s) = None \<and>
      snd (check_sort tname table rmap ss)
        = Some (Err (''bad request: sort column '' @ sf_Name s @ '' not in result set'')))"
proof (induction ss)
  case Nil
  then show ?case by simp
next
  case (Cons s ss)
  show ?case
  proof (cases "tbl_ColumnsIndex table (sf_Name s) = None \<or> rmap (sf_Name s) = None")
    case True
    then show ?thesis by (auto split: option.splits)
  next
    case False
    with Cons.prems have "\<exists>s\<in>set ss. tbl_ColumnsIndex table (sf_Name s) = None \<or> rmap (sf_Name s) = None"
      by auto
    from Cons.IH[OF this] False show ?thesis
      by (auto split: option.splits prod.splits)
  qed
qed

lemma expand_backends_unknown:
  "\<exists>b\<in>set bs. w_DataStore W b = None \<Longrightarrow>
   \<exists>b\<in>set bs. w_DataStore W b = None \<and>
     expand_backends W bs m = Inl (Err (''bad request: backend '' @ b @ '' does not exist''))"
proof (induction bs arbitrary: m)
  case Nil
  then show ?case by simp
next
  case (Cons b bs)
  show ?case
  proof (cases "w_DataStore W b")
    case None
    then show ?thesis by auto
  next
    case (Some p)
    with Cons.prems have "\<exists>b\<in>set bs. w_DataStore W b = None" by auto
    from Cons.IH[OF this] obtain b' where "b' \<in> set bs" "w_DataStore W b' = None"
      "expand_backends W bs (m(b \<mapsto> b)) = Inl (Err (''bad request: backend '' @ b' @ '' does not exist''))"
      by blast
    with Some show ?thesis by (intro bexI[of _ b']) simp_all
  qed
qed

lemma BuildResponse_indexes_error:
  "snd (BuildResponseIndexes (w_ToLower W) req (lookup_table W (req_Table req))) = Inl e \<Longrightarrow>
   BuildResponse W sched req =
     (initial_response (fst (BuildResponseIndexes (w_ToLower W) req (lookup_table W (req_Table req)))),
      Some e, [])"
  by (cases "BuildResponseIndexes (w_ToLower W) req (lookup_table W (req_Table req))")
     (simp add: BuildResponse_def initial_response_def Let_def)

lemma BuildResponse_backends_error:
  "BuildResponseIndexes (w_ToLower W) req (lookup_table W (req_Table req)) = (req', Inr (ix, cols)) \<Longrightarrow>
   ExpandRequestBackends W req' = Inl e \<Longrightarrow>
   BuildResponse W sched req = ((initial_response req')\<lparr>res_Columns := cols\<rparr>, Some e, [])"
  by (simp add: BuildResponse_def initial_response_def Let_def split: prod.splits)

lemma expand_columns_fields:
  "req_Table (expand_columns req table) = req_Table req
   \<and> req_Sort (expand_columns req table) = req_Sort req
   \<and> req_Backends (expand_columns req table) = req_Backends req"
  by (simp add: expand_columns_def)

lemma BuildResponseIndexes_unknown_column:
  assumes "wf_table table"
    and "\<exists>c\<in>set (req_Columns (expand_columns req table)). tbl_ColumnsIndex table (lower c) = None"
  shows "\<exists>c\<in>set (req_Columns (expand_columns req table)).
           tbl_ColumnsIndex table (lower c) = None \<and>
           BuildResponseIndexes lower req table =
             (expand_columns req table,
              Inl (Err (''bad request: table '' @ req_Table req @ '' has no column '' @ lower c)))"
proof -
  from resolve_columns_unknown [OF assms(1) assms(2), of "req_Table req" 0 "([], [], Map.empty)"]
  obtain c where c: "c \<in> set (req_Columns (expand_columns req table))"
    "tbl_ColumnsIndex table (lower c) = None"
    "resolve_columns lower (req_Table req) table 0 (req_Columns (expand_columns req table))
       ([], [], Map.empty)
     = Inl (Err (''bad request: table '' @ req_Table req @ '' has no column '' @ lower c))"
    by blast
  from c(3) have "BuildResponseIndexes lower req table =
             (expand_columns req table,
              Inl (Err (''bad request: table '' @ req_Table req @ '' has no column '' @ lower c)))"
    by (simp add: BuildResponseIndexes_def Let_def expand_columns_fields)
  with c(1,2) show ?thesis by blast
qed

lemma BuildResponseIndexes_bad_sort:
  assumes "wf_table table"
    and "\<forall>c\<in>set (req_Columns (expand_columns req table)). tbl_ColumnsIndex table (lower c) \<noteq> None"
    and "\<exists>s\<in>set (req_Sort req). tbl_ColumnsIndex table (sf_Name s) = None
           \<or> sf_Name s \<notin> lower ` set (req_Columns (expand_columns req table))"
  shows "\<exists>s\<in>set (req_Sort req).
           (tbl_ColumnsIndex table (sf_Name s) = None \<and>
            snd (BuildResponseIndexes lower req table)
              = Inl (Err (''bad request: table '' @ req_Table req @ '' has no column ''
                          @ sf_Name s @ '' to sort'')))
         \<or> (sf_Name s \<notin> lower ` set (req_Columns (expand_columns req table)) \<and>
            snd (BuildResponseIndexes lower req table)
              = Inl (Err (''bad request: sort column '' @ sf_Name s @ '' not in result set'')))"
proof -
  from resolve_columns_known [OF assms(1) assms(2), of "req_Table req" 0 "[]" "[]" Map.empty]
  obtain ix cols m where r:
    "resolve_columns lower (req_Table req) table 0 (req_Columns (expand_columns req table))
       ([], [], Map.empty) = Inr (ix, cols, m)"
    and d: "dom m = lower ` set (req_Columns (expand_columns req table))"
    by auto
  have n: "m x = None \<longleftrightarrow> x \<notin> lower ` set (req_Columns (expand_columns req table))" for x
    using d domIff [of x m] by blast
  from assms(3) have "\<exists>s\<in>set (req_Sort req). tbl_ColumnsIndex table (sf_Name s) = None
           \<or> m (sf_Name s) = None"
    by (simp add: n)
  from check_sort_bad [OF this, of "req_Table req"] obtain s where s: "s \<in> set (req_Sort req)"
    and e: "(tbl_ColumnsIndex table (sf_Name s) = None \<and>
      snd (check_sort (req_Table req) table m (req_Sort req))
        = Some (Err (''bad request: table '' @ req_Table req @ '' has no column ''
                     @ sf_Name s @ '' to sort'')))
     \<or> (m (sf_Name s) = None \<and>
      snd (check_sort (req_Table req) table m (req_Sort req))
        = Some (Err (''bad request: sort column '' @ sf_Name s @ '' not in result set'')))"
    by blast
  have b: "snd (BuildResponseIndexes lower req table) = Inl x"
    if "snd (check_sort (req_Table req) table m (req_Sort req)) = Some x" for x
    using that r
    by (cases "check_sort (req_Table req) table m (req_Sort req)")
       (simp add: BuildResponseIndexes_def Let_def expand_columns_fields)
  from e show ?thesis
  proof
    assume "tbl_ColumnsIndex table (sf_Name s) = None \<and>
      snd (check_sort (req_Table req) table m (req_Sort req))
        = Some (Err (''bad request: table '' @ req_Table req @ '' has no column ''
                     @ sf_Name s @ '' to sort''))"
    with s b show ?thesis by blast
  next
    assume "m (sf_Name s) = None \<and>
      snd (check_sort (req_Table req) table m (req_Sort req))
        = Some (Err (''bad request: sort column '' @ sf_Name s @ '' not in result set''))"
    with s b n show ?thesis by blast
  qed
qed

lemma BuildResponseIndexes_Backends:
  "req_Backends (fst (BuildResponseIndexes lower req table)) = req_Backends req"
  by (simp add: BuildResponseIndexes_def Let_def expand_columns_fields
      split: sum.splits prod.splits option.splits)

lemma ExpandRequestBackends_unknown:
  assumes "\<exists>b\<in>set (req_Backends req). w_DataStore W b = None"
  shows "\<exists>b\<in>set (req_Backends req). w_DataStore W b = None \<and>
     ExpandRequestBackends W req = Inl (Err (''bad request: backend '' @ b @ '' does not exist''))"
proof -
  from assms have ne: "req_Backends req \<noteq> []" by auto
  from expand_backends_unknown [OF assms, of Map.empty] ne show ?thesis
    by (auto simp: ExpandRequestBackends_def Let_def)
qed

lemma initial_response_fields:
  "res_Result (initial_response req) = NilSlice \<and> res_Failed (initial_response req) = Map.empty
   \<and> res_Error (initial_response req) = None
   \<and> res_Result ((initial_response req)\<lparr>res_Columns := cols\<rparr>) = NilSlice
   \<and> res_Failed ((initial_response req)\<lparr>res_Columns := cols\<rparr>) = Map.empty
   \<and> res_Error ((initial_response req)\<lparr>res_Columns := cols\<rparr>) = None"
  by (simp add: initial_response_def)

text \<open>
  C5.  Against a well-formed table: a request with a column whose lowercased name the
  table does not have, a request whose columns are all known but with a sort column that
  the table or the resolved output set does not have, and a request that passes the
  resolver but names a backend the registry does not have, each make \<open>BuildResponse\<close>
  return a \<open>bad request\<close> error that names the offending column (with the table) or
  backend; no event has happened (no spin-up, no query to a peer, no read of local data,
  no post-processing), and the response has no result, no failed peers and no error set.
\<close>

theorem bad_request_aborts:
  assumes "table = lookup_table W (req_Table req)" and "wf_table table"
    and "cols = req_Columns (expand_columns req table)" and "lower = w_ToLower W"
  shows
   "((\<exists>c\<in>set cols. tbl_ColumnsIndex table (lower c) = None) \<longrightarrow>
       (\<exists>c\<in>set cols. \<exists>res. tbl_ColumnsIndex table (lower c) = None \<and>
          BuildResponse W sched req =
            (res, Some (Err (''bad request: table '' @ req_Table req @ '' has no column '' @ lower c)), [])
          \<and> res_Result res = NilSlice \<and> res_Failed res = Map.empty \<and> res_Error res = None))
  \<and> ((\<forall>c\<in>set cols. tbl_ColumnsIndex table (lower c) \<noteq> None) \<longrightarrow>
      (\<exists>s\<in>set (req_Sort req). tbl_ColumnsIndex table (sf_Name s) = None
                                \<or> sf_Name s \<notin> lower ` set cols) \<longrightarrow>
       (\<exists>s\<in>set (req_Sort req). \<exists>res.
          res_Result res = NilSlice \<and> res_Failed res = Map.empty \<and> res_Error res = None \<and>
          ((tbl_ColumnsIndex table (sf_Name s) = None \<and>
            BuildResponse W sched req =
              (res, Some (Err (''bad request: table '' @ req_Table req @ '' has no column ''
                               @ sf_Name s @ '' to sort'')), []))
         \<or> (sf_Name s \<notin> lower ` set cols \<and>
            BuildResponse W sched req =
              (res, Some (Err (''bad request: sort column '' @ sf_Name s
                               @ '' not in result set'')), [])))))
  \<and> ((\<exists>req' ix columns. BuildResponseIndexes lower req table = (req', Inr (ix, columns))) \<longrightarrow>
      (\<exists>b\<in>set (req_Backends req). w_DataStore W b = None) \<longrightarrow>
       (\<exists>b\<in>set (req_Backends req). \<exists>res. w_DataStore W b = None \<and>
          BuildResponse W sched req =
            (res, Some (Err (''bad request: backend '' @ b @ '' does not exist'')), [])
          \<and> res_Result res = NilSlice \<and> res_Failed res = Map.empty \<and> res_Error res = None))"
proof (intro conjI impI)
  assume "\<exists>c\<in>set cols. tbl_ColumnsIndex table (lower c) = None"
  then obtain c where c: "c \<in> set cols" "tbl_ColumnsIndex table (lower c) = None"
    and b: "BuildResponseIndexes lower req table =
             (expand_columns req table,
              Inl (Err (''bad request: table '' @ req_Table req @ '' has no column '' @ lower c)))"
    using BuildResponseIndexes_unknown_column [OF assms(2), of req lower] assms(3) by blast
  from b have "snd (BuildResponseIndexes (w_ToLower W) req (lookup_table W (req_Table req)))
      = Inl (Err (''bad request: table '' @ req_Table req @ '' has no column '' @ lower c))"
    using assms(1,4) by simp
  from BuildResponse_indexes_error [OF this] c initial_response_fields
  show "\<exists>c\<in>set cols. \<exists>res. tbl_ColumnsIndex table (lower c) = None \<and>
          BuildResponse W sched req =
            (res, Some (Err (''bad request: table '' @ req_Table req @ '' has no column '' @ lower c)), [])
          \<and> res_Result res = NilSlice \<and> res_Failed res = Map.empty \<and> res_Error res = None"
    by blast
next
  assume k: "\<forall>c\<in>set cols. tbl_ColumnsIndex table (lower c) \<noteq> None"
    and s: "\<exists>s\<in>set (req_Sort req). tbl_ColumnsIndex table (sf_Name s) = None
                                \<or> sf_Name s \<notin> lower ` set cols"
  from BuildResponseIndexes_bad_sort [OF assms(2), of req lower] k s assms(3)
  obtain s where s: "s \<in> set (req_Sort req)"
    and e: "(tbl_ColumnsIndex table (sf_Name s) = None \<and>
            snd (BuildResponseIndexes lower req table)
              = Inl (Err (''bad request: table '' @ req_Table req @ '' has no column ''
                          @ sf_Name s @ '' to sort'')))
         \<or> (sf_Name s \<notin> lower ` set cols \<and>
            snd (BuildResponseIndexes lower req table)
              = Inl (Err (''bad request: sort column '' @ sf_Name s @ '' not in result set'')))"
    by blast
  have b: "BuildResponse W sched req =
     (initial_response (fst (BuildResponseIndexes lower req table)), Some x, [])"
    if "snd (BuildResponseIndexes lower req table) = Inl x" for x
    using that BuildResponse_indexes_error [of W req x sched] assms(1,4) by simp
  from e s b initial_response_fields
  show "\<exists>s\<in>set (req_Sort req). \<exists>res.
          res_Result res = NilSlice \<and> res_Failed res = Map.empty \<and> res_Error res = None \<and>
          ((tbl_ColumnsIndex table (sf_Name s) = None \<and>
            BuildResponse W sched req =
              (res, Some (Err (''bad request: table '' @ req_Table req @ '' has no column ''
                               @ sf_Name s @ '' to sort'')), []))
         \<or> (sf_Name s \<notin> lower ` set cols \<and>
            BuildResponse W sched req =
              (res, Some (Err (''bad request: sort column '' @ sf_Name s
                               @ '' not in result set'')), [])))"
    by blast
next
  assume "\<exists>req' ix columns. BuildResponseIndexes lower req table = (req', Inr (ix, columns))"
    and u: "\<exists>b\<in>set (req_Backends req). w_DataStore W b = None"
  then obtain req' ix columns where
    i: "BuildResponseIndexes lower req table = (req', Inr (ix, columns))" by blast
  have "req_Backends req' = req_Backends req"
    using BuildResponseIndexes_Backends [of lower req table] i by simp
  with u have "\<exists>b\<in>set (req_Backends req'). w_DataStore W b = None" by simp
  from ExpandRequestBackends_unknown [OF this] obtain b where b: "b \<in> set (req_Backends req)"
    "w_DataStore W b = None"
    "ExpandRequestBackends W req' = Inl (Err (''bad request: backend '' @ b @ '' does not exist''))"
    using \<open>req_Backends req' = req_Backends req\<close> by auto
  from i have "BuildResponseIndexes (w_ToLower W) req (lookup_table W (req_Table req))
      = (req', Inr (ix, columns))"
    using assms(1,4) by simp
  from BuildResponse_backends_error [OF this b(3)] b(1,2) initial_response_fields
  show "\<exists>b\<in>set (req_Backends req). \<exists>res. w_DataStore W b = None \<and>
          BuildResponse W sched req =
            (res, Some (Err (''bad request: backend '' @ b @ '' does not exist'')), [])
          \<and> res_Result res = NilSlice \<and> res_Failed res = Map.empty \<and> res_Error res = None"
    by blast
qed

lemmas world_defs = sample_world_def lookup_table_def hosts_table_def name_col_def state_col_def
  plain_request_def expand_columns_def ascii_lower_def by_state_asc_def

theorem bad_request_aborts_witness:
  "wf_table (lookup_table sample_world ''hosts'')
   \<and> snd (BuildResponse sample_world [] bad_column_request)
       = (Some (Err ''bad request: table hosts has no column bogus''), [])
   \<and> snd (BuildResponse sample_world [] bad_sort_request)
       = (Some (Err ''bad request: sort column state not in result set''), [])
   \<and> snd (BuildResponse sample_world [] bad_backend_request)
       = (Some (Err ''bad request: backend idz does not exist''), [])"
proof -
  have t: "req_Table bad_column_request = ''hosts''" "req_Table bad_sort_request = ''hosts''"
    "req_Table bad_backend_request = ''hosts''"
    by (simp_all add: bad_column_request_def bad_sort_request_def bad_backend_request_def
        plain_request_def)
  have wf: "wf_table (lookup_table sample_world ''hosts'')"
    by (simp add: wf_table_def world_defs split: if_splits)
  have f1: "\<exists>res. BuildResponse sample_world [] bad_column_request
              = (res, Some (Err ''bad request: table hosts has no column bogus''), [])"
    using bad_request_aborts [OF refl wf [folded t(1)] refl refl, of "[]"]
    by (simp add: world_defs bad_column_request_def) blast
  have f2: "\<exists>res. BuildResponse sample_world [] bad_sort_request
              = (res, Some (Err ''bad request: sort column state not in result set''), [])"
    using bad_request_aborts [OF refl wf [folded t(2)] refl refl, of "[]"]
    by (simp add: world_defs bad_sort_request_def) blast
  have i: "BuildResponseIndexes ascii_lower bad_backend_request hosts_table
             = (bad_backend_request,
                Inr ([0], [\<lparr>col_Name = ''name'', col_Type = StringCol, col_Index = 0,
                             col_RefIndex = 0, col_Update = OtherUpdate\<rparr>]))"
    by (simp add: BuildResponseIndexes_def bad_backend_request_def world_defs go_index_def Let_def)
  have f3: "\<exists>res. BuildResponse sample_world [] bad_backend_request
              = (res, Some (Err ''bad request: backend idz does not exist''), [])"
    using bad_request_aborts [OF refl wf [folded t(3)] refl refl, of "[]"] i
    by (simp add: sample_world_def lookup_table_def bad_backend_request_def plain_request_def) blast
  show ?thesis
    using wf f1 f2 f3 by auto
qed

section \<open>Properties of the passthrough collector\<close>

lemmas pt_defs = BuildPassThroughResult_def pt_wait_def pt_launch_def pt_unit_def lookup_peer_def
  append_slice_def Let_def

lemmas pt_sample_defs = sample_world_def peer_a_def peer_b_def peer_c_def log_response_def
  plain_response_def insert_virtual_values_def virtColumns_def log_columns_def virt_at_def
  insert_virt_def

text \<open>
  When nothing is interleaved (the loop runs to its end, then each unit runs from its
  query to its last write before the next one starts), the three-peer scenario ends as
  the specification says: exactly the rows of \<open>pa\<close>, \<open>Failed\<close> extended by the last error of
  \<open>pb\<close> and the call error of \<open>pc\<close>, \<open>Error\<close> untouched, queries to \<open>pa\<close> and \<open>pc\<close> only.
\<close>

lemma passthrough_sequential:
  assumes "three_peers W table columns n (res_Request res) a b c pa pb pc rowsA rowsA' callError"
  shows "\<exists>res' err qs.
           BuildPassThroughResult W [] res [a, b, c] table columns n = Inr (res', err, qs)
         \<and> elems (res_Result res') = rowsA'
         \<and> res_Failed res' =
             (res_Failed res)(peer_ID pb \<mapsto> w_Sprint W (peer_Status pb ''LastError''),
                              peer_ID pc \<mapsto> callError)
         \<and> res_Error res' = res_Error res
         \<and> map fst qs = [pa, pc]
         \<and> snd ` set qs \<subseteq> {passthroughRequest (res_Request res) columns}"
  using assms by (auto simp: three_peers_def pt_defs)

text \<open>
  When the query of \<open>pc\<close> returns between the return of \<open>pa\<close>'s query and \<open>pa\<close>'s test of
  \<open>err\<close>, the unit of \<open>pa\<close> reads the error of \<open>pc\<close>: it records it under its own id and
  drops its rows.
\<close>

lemma passthrough_interleaved:
  assumes "three_peers W table columns n (res_Request res) a b c pa pb pc rowsA rowsA' callError"
  shows "\<exists>res' err qs.
           BuildPassThroughResult W [Advance, Advance, Advance, Unit 0, Unit 1, Unit 0] res
             [a, b, c] table columns n = Inr (res', err, qs)
         \<and> elems (res_Result res') = []
         \<and> res_Failed res' =
             (res_Failed res)(peer_ID pb \<mapsto> w_Sprint W (peer_Status pb ''LastError''),
                              peer_ID pa \<mapsto> callError, peer_ID pc \<mapsto> callError)
         \<and> map fst qs = [pa, pc]"
  using assms by (auto simp: three_peers_def pt_defs)

text \<open>
  C3.  The claim: with peers A, B, C, B down and C's call failing, the result holds
  exactly A's rows and \<open>Failed\<close> holds B's last error and C's call error.  Every unit
  assigns the result of its query to the one \<open>err\<close> of the function and tests that
  variable in a later statement, and nothing keeps another unit from running in between.
  In the sample world (A answers with two rows, B is down, C's query fails), when A's
  query returns, then C's, and then A tests \<open>err\<close>, A finds C's error: the result is empty
  and \<open>Failed\<close> holds C's error under A's id as well.
\<close>

theorem passthrough_shared_err_drops_rows:
  "\<exists>res err qs.
     BuildPassThroughResult sample_world [Advance, Advance, Advance, Unit 0, Unit 1, Unit 0]
       log_response [''ida'', ''idb'', ''idc''] log_table log_columns 3 = Inr (res, err, qs)
     \<and> elems (res_Result res) = []
     \<and> res_Failed res = [''idb'' \<mapsto> ''timeout'', ''ida'' \<mapsto> ''connection refused'',
                          ''idc'' \<mapsto> ''connection refused'']
     \<and> res_Error res = None
     \<and> map fst qs = [peer_a, peer_c]"
  by (simp add: pt_defs pt_sample_defs)

text \<open>In the other order (C's query returns, then A's, then the tests) both units find
  \<open>err\<close> to be \<open>nil\<close>: A's rows are there, but C's error is recorded nowhere.\<close>

lemma passthrough_shared_err_loses_error:
  "\<exists>res err qs.
     BuildPassThroughResult sample_world [Advance, Advance, Advance, Unit 1, Unit 0]
       log_response [''ida'', ''idb'', ''idc''] log_table log_columns 3 = Inr (res, err, qs)
     \<and> elems (res_Result res)
         = [[CInt 10, CString ''A'', CString ''up''], [CInt 20, CString ''A'', CString ''down'']]
     \<and> res_Failed res = [''idb'' \<mapsto> ''timeout'']
     \<and> map fst qs = [peer_c, peer_a]"
  by (simp add: pt_defs pt_sample_defs)

text \<open>The sample world is an instance of the scenario, and without interleaving it ends
  as the specification says.\<close>

lemma passthrough_sequential_example:
  "\<exists>res err qs.
     BuildPassThroughResult sample_world [] log_response [''ida'', ''idb'', ''idc'']
       log_table log_columns 3 = Inr (res, err, qs)
     \<and> elems (res_Result res)
         = [[CInt 10, CString ''A'', CString ''up''], [CInt 20, CString ''A'', CString ''down'']]
     \<and> res_Failed res = [''idb'' \<mapsto> ''timeout'', ''idc'' \<mapsto> ''connection refused'']
     \<and> res_Error res = None
     \<and> map fst qs = [peer_a, peer_c]"
  by (simp add: pt_defs pt_sample_defs)

end
